theory Spec2Isabelle
  imports Complex_Main "HOL-Library.Sublist" "HOL-Library.List_Lexorder"
begin

chapter \<open>The agent runtime of \<^verbatim>\<open>src/agent.py\<close> and its built-in tool executor\<close>

section \<open>Python values\<close>

text \<open>
  A Python \<^verbatim>\<open>str\<close> is a sequence of Unicode code points and \<^verbatim>\<open>len\<close> counts code
  points, so a string is modelled as the list of its code points. Source literals are
  written \<open>py ''...''\<close>; the few glyphs outside ASCII that the source prints are given by
  their code point.
\<close>

type_synonym pystr = "nat list"

definition py :: "string \<Rightarrow> pystr" where
  "py cs = map of_char cs"

text \<open>\<^verbatim>\<open>sep.join(parts)\<close>.\<close>

fun py_join :: "pystr \<Rightarrow> pystr list \<Rightarrow> pystr" where
  "py_join sep [] = []"
| "py_join sep [p] = p"
| "py_join sep (p # q # ps) = p @ sep @ py_join sep (q # ps)"

section \<open>Python string operations\<close>

text \<open>\<^verbatim>\<open>sub in s\<close>.\<close>

fun py_in :: "pystr \<Rightarrow> pystr \<Rightarrow> bool" where
  "py_in sub [] = (sub = [])"
| "py_in sub (c # cs) = (prefix sub (c # cs) \<or> py_in sub cs)"

text \<open>
  \<^verbatim>\<open>s.replace(old, new)\<close>, \<^verbatim>\<open>s.count(sub)\<close> and \<^verbatim>\<open>s.split(sep)\<close>: CPython scans from the
  left and continues after each match, so matches do not overlap. With an empty
  pattern \<^verbatim>\<open>replace\<close> inserts \<^verbatim>\<open>new\<close> around every character and \<^verbatim>\<open>count\<close> is the length
  plus one; \<^verbatim>\<open>split\<close> raises on an empty separator, and the executors only split at
  a newline.
\<close>

function py_replace :: "pystr \<Rightarrow> pystr \<Rightarrow> pystr \<Rightarrow> pystr" where
  "py_replace [] old new = (if old = [] then new else [])"
| "py_replace (c # cs) old new =
     (if old = [] then new @ c # py_replace cs old new
      else if prefix old (c # cs) then new @ py_replace (drop (length old) (c # cs)) old new
      else c # py_replace cs old new)"
  by pat_completeness auto
termination
  by (relation "measure (\<lambda>(s, old, new). length s)") auto

function py_count :: "pystr \<Rightarrow> pystr \<Rightarrow> nat" where
  "py_count [] sub = (if sub = [] then 1 else 0)"
| "py_count (c # cs) sub =
     (if sub = [] then 1 + py_count cs sub
      else if prefix sub (c # cs) then 1 + py_count (drop (length sub) (c # cs)) sub
      else py_count cs sub)"
  by pat_completeness auto
termination
  by (relation "measure (\<lambda>(s, sub). length s)") auto

function py_split :: "pystr \<Rightarrow> pystr \<Rightarrow> pystr list" where
  "py_split [] sep = [[]]"
| "py_split (c # cs) sep =
     (if sep \<noteq> [] \<and> prefix sep (c # cs) then [] # py_split (drop (length sep) (c # cs)) sep
      else (case py_split cs sep of [] \<Rightarrow> [[c]] | p # ps \<Rightarrow> (c # p) # ps))"
  by pat_completeness auto
termination
  by (relation "measure (\<lambda>(s, sep). length s)") auto

text \<open>
  The characters \<^verbatim>\<open>str.strip\<close> removes when called without an argument: those for
  which \<^verbatim>\<open>str.isspace\<close> holds.
\<close>

definition py_isspace :: "nat \<Rightarrow> bool" where
  "py_isspace c \<longleftrightarrow>
     (9 \<le> c \<and> c \<le> 13) \<or> (28 \<le> c \<and> c \<le> 32) \<or> c = 133 \<or> c = 160 \<or> c = 5760
     \<or> (8192 \<le> c \<and> c \<le> 8202) \<or> c = 8232 \<or> c = 8233 \<or> c = 8239 \<or> c = 8287
     \<or> c = 12288"

definition py_lstrip :: "pystr \<Rightarrow> pystr" where
  "py_lstrip s = dropWhile py_isspace s"

definition py_rstrip :: "pystr \<Rightarrow> pystr" where
  "py_rstrip s = rev (dropWhile py_isspace (rev s))"

definition py_strip :: "pystr \<Rightarrow> pystr" where
  "py_strip s = py_rstrip (py_lstrip s)"

text \<open>\<^verbatim>\<open>str(n)\<close> for an int, and the format \<^verbatim>\<open>{n:6d}\<close>: right-aligned, at least 6 wide.\<close>

fun digits :: "nat \<Rightarrow> pystr" where
  "digits n = (if n < 10 then [48 + n] else digits (n div 10) @ [48 + n mod 10])"

declare digits.simps [simp del]

definition str_int :: "int \<Rightarrow> pystr" where
  "str_int i = (if i < 0 then 45 # digits (nat (- i)) else digits (nat i))"

definition format_6d :: "int \<Rightarrow> pystr" where
  "format_6d i = replicate (6 - length (str_int i)) 32 @ str_int i"

text \<open>\<^verbatim>\<open>str(xs)\<close> for a list of ints, as in \<^verbatim>\<open>[0, 4, 7]\<close>.\<close>

definition str_int_list :: "int list \<Rightarrow> pystr" where
  "str_int_list xs = py ''['' @ py_join (py '', '') (map str_int xs) @ py '']''"

section \<open>Files\<close>

text \<open>
  The exceptions the executors tell apart, each with its \<^verbatim>\<open>str(e)\<close>; all of them derive
  from \<^verbatim>\<open>Exception\<close>.
\<close>

datatype exn =
    FileNotFoundError pystr
  | PermissionError pystr
  | TimeoutExpired pystr
  | UnicodeEncodeError pystr
  | OtherException pystr

fun str_exn :: "exn \<Rightarrow> pystr" where
  "str_exn (FileNotFoundError m) = m"
| "str_exn (PermissionError m) = m"
| "str_exn (TimeoutExpired m) = m"
| "str_exn (UnicodeEncodeError m) = m"
| "str_exn (OtherException m) = m"

datatype 'a raises = Returns 'a | Raises exn

text \<open>
  A call can also end in \<^verbatim>\<open>SystemExit\<close>, which \<^verbatim>\<open>sys.exit\<close> raises with its exit code. It
  does not derive from \<^verbatim>\<open>Exception\<close>, so no \<^verbatim>\<open>except Exception\<close> catches it. Where that
  can happen a call has one of three outcomes.
\<close>

datatype 'a outcome = Value 'a | Raised exn | SystemExit int


text \<open>
  The files the executors see: the text stored under each path (what decoding the
  bytes of the file as UTF-8 gives), and the paths at which opening for reading or for
  writing fails (a directory, missing rights, bytes that are not UTF-8, a parent that
  cannot be created) with the exception raised. A failed open leaves the files as
  they were. The platform is POSIX: text mode writes a newline as it is. A device
  that fails under a write that has begun (a full disk) is outside the model.
\<close>

record filesystem =
  files :: "pystr \<rightharpoonup> pystr"
  read_fault :: "pystr \<rightharpoonup> exn"
  write_fault :: "pystr \<rightharpoonup> exn"

text \<open>
  Reading in text mode translates the line ends \<^verbatim>\<open>\r\n\<close> and \<^verbatim>\<open>\r\<close> to \<^verbatim>\<open>\n\<close>
  (universal newlines, the default of \<^verbatim>\<open>open\<close>).
\<close>

fun universal_newlines :: "pystr \<Rightarrow> pystr" where
  "universal_newlines [] = []"
| "universal_newlines [c] = [if c = 13 then 10 else c]"
| "universal_newlines (c # d # ds) =
     (if c = 13 \<and> d = 10 then 10 # universal_newlines ds
      else if c = 13 then 10 # universal_newlines (d # ds)
      else c # universal_newlines (d # ds))"

definition open_read :: "filesystem \<Rightarrow> pystr \<Rightarrow> pystr raises" where
  "open_read fs path =
     (case read_fault fs path of
        Some e \<Rightarrow> Raises e
      | None \<Rightarrow>
          (case files fs path of
             None \<Rightarrow> Raises (FileNotFoundError (py ''[Errno 2] No such file or directory''))
           | Some stored \<Rightarrow> Returns (universal_newlines stored)))"

text \<open>
  UTF-8 encodes every code point of a \<^verbatim>\<open>str\<close> but the surrogates U+D800 to U+DFFF. On
  the first of them the codec raises \<^verbatim>\<open>UnicodeEncodeError\<close>, whose \<^verbatim>\<open>str\<close> names the
  character (as \<^verbatim>\<open>\udXXX\<close>, in lower-case hexadecimal) and its index when it stands
  alone, and the first and the last index of the run of surrogates otherwise.
\<close>

definition surrogate :: "nat \<Rightarrow> bool" where
  "surrogate c \<longleftrightarrow> 55296 \<le> c \<and> c \<le> 57343"

definition encodable :: "pystr \<Rightarrow> bool" where
  "encodable s = list_all (\<lambda>c. \<not> surrogate c) s"

definition hex_digit :: "nat \<Rightarrow> nat" where
  "hex_digit d = (if d < 10 then 48 + d else 87 + d)"

definition hex4 :: "nat \<Rightarrow> pystr" where
  "hex4 c = map hex_digit [c div 4096 mod 16, c div 256 mod 16, c div 16 mod 16, c mod 16]"

definition encode_error :: "pystr \<Rightarrow> exn" where
  "encode_error s =
     (let start = length (takeWhile (\<lambda>c. \<not> surrogate c) s);
          stop = start + length (takeWhile surrogate (drop start s))
      in UnicodeEncodeError
           ([39] @ py ''utf-8'' @ [39]
            @ (if stop = start + 1
               then py '' codec can't encode character '' @ [39, 92, 117] @ hex4 (s ! start) @ [39]
                      @ py '' in position '' @ str_int (int start)
               else py '' codec can't encode characters in position '' @ str_int (int start)
                      @ py ''-'' @ str_int (int stop - 1))
            @ py '': surrogates not allowed''))"

text \<open>
  \<^verbatim>\<open>with open(path, 'w', encoding='utf-8') as f: f.write(txt)\<close>: the exception raised,
  if one is, and the files afterwards. Opening truncates the file; \<^verbatim>\<open>write\<close> encodes
  the whole text before any of it reaches the file, so a text that cannot be encoded
  leaves the file empty.
\<close>

definition open_write :: "filesystem \<Rightarrow> pystr \<Rightarrow> pystr \<Rightarrow> exn option \<times> filesystem" where
  "open_write fs path txt =
     (case write_fault fs path of
        Some e \<Rightarrow> (Some e, fs)
      | None \<Rightarrow>
          if encodable txt then (None, fs\<lparr>files := (files fs)(path \<mapsto> txt)\<rparr>)
          else (Some (encode_error txt), fs\<lparr>files := (files fs)(path \<mapsto> [])\<rparr>))"

text \<open>\<^verbatim>\<open>f.readlines()\<close>: the lines of the text, each with its newline.\<close>

fun readlines :: "pystr \<Rightarrow> pystr list" where
  "readlines [] = []"
| "readlines (c # cs) =
     (if c = 10 then [10] # readlines cs
      else (case readlines cs of [] \<Rightarrow> [[c]] | l # ls \<Rightarrow> (c # l) # ls))"

section \<open>The built-in file tools\<close>

text \<open>
  The argument map of a tool call, as the tools' JSON schemas type it: a key is absent
  (\<open>None\<close>) or holds a value of its declared type. The record has the keys that the
  built-in tools read. The value under \<^verbatim>\<open>todos\<close> is an array, of which \<^verbatim>\<open>_todo_write\<close> uses
  what \<^verbatim>\<open>json.dump\<close> with \<^verbatim>\<open>indent=2\<close> writes for it, and its length.
\<close>

record todo_list =
  todos_dumped :: pystr
  todos_length :: nat

record arguments =
  arg_file_path :: "pystr option"
  arg_offset :: "int option"
  arg_limit :: "int option"
  arg_content :: "pystr option"
  arg_old_text :: "pystr option"
  arg_new_text :: "pystr option"
  arg_url :: "pystr option"
  arg_command :: "pystr option"
  arg_timeout :: "int option"
  arg_directory_path :: "pystr option"
  arg_todos :: "todo_list option"
  arg_description :: "pystr option"
  arg_prompt :: "pystr option"
  arg_context :: "pystr option"
  arg_task_id :: "pystr option"
  arg_include_running :: "bool option"
  arg_clear_after_retrieval :: "bool option"

definition no_arguments :: arguments where
  "no_arguments = \<lparr>arg_file_path = None, arg_offset = None, arg_limit = None,
     arg_content = None, arg_old_text = None, arg_new_text = None, arg_url = None,
     arg_command = None, arg_timeout = None, arg_directory_path = None, arg_todos = None,
     arg_description = None, arg_prompt = None, arg_context = None, arg_task_id = None,
     arg_include_running = None, arg_clear_after_retrieval = None\<rparr>"

definition get_str :: "pystr option \<Rightarrow> pystr" where
  "get_str v = (case v of Some s \<Rightarrow> s | None \<Rightarrow> [])"

text \<open>
  Every executor returns a string. The model tags each return statement by the path
  it is on: \<open>Failed\<close> for the returns of the argument checks, of the not-found checks
  and of the \<^verbatim>\<open>except\<close> blocks, \<open>Done\<close> for the others. The caller receives
  \<open>text_of\<close>. The methods of \<^verbatim>\<open>agent.py\<close> keep their names without the leading
  underscore; those of \<^verbatim>\<open>builtin_tool_executor.py\<close> are prefixed \<open>executor_\<close>.
\<close>

datatype tool_result = Done pystr | Failed pystr

fun text_of :: "tool_result \<Rightarrow> pystr" where
  "text_of (Done s) = s"
| "text_of (Failed s) = s"

fun is_error :: "tool_result \<Rightarrow> bool" where
  "is_error (Done s) = False"
| "is_error (Failed s) = True"

text \<open>\<^verbatim>\<open>_read_file\<close> of \<^verbatim>\<open>agent.py\<close>. The arrow is U+2192.\<close>

definition read_file :: "filesystem \<Rightarrow> arguments \<Rightarrow> tool_result" where
  "read_file fs args =
     (let file_path = get_str (arg_file_path args);
          offset = (case arg_offset args of Some n \<Rightarrow> n | None \<Rightarrow> 1);
          limit = arg_limit args
      in if file_path = [] then Failed (py ''Error: No file path provided'')
         else
           (case open_read fs file_path of
              Raises (FileNotFoundError m) \<Rightarrow> Failed (py ''Error: File not found: '' @ file_path)
            | Raises e \<Rightarrow> Failed (py ''Error reading file: '' @ str_exn e)
            | Returns txt \<Rightarrow>
                let lines = readlines txt;
                    start_idx = max 0 (offset - 1);
                    end_idx = (case limit of
                                 None \<Rightarrow> int (length lines)
                               | Some l \<Rightarrow> min (int (length lines)) (start_idx + l))
                in Done (py_join [10]
                     (map (\<lambda>i. format_6d (i + 1) @ [8594] @ py_rstrip (lines ! nat i))
                        [start_idx..end_idx - 1]))))"

text \<open>
  \<^verbatim>\<open>_write_file\<close> of \<^verbatim>\<open>agent.py\<close>. \<^verbatim>\<open>os.makedirs\<close> for the parent directory comes
  before the file is opened: when it raises, that is the fault of the path and the
  file is as it was.
\<close>

definition write_file :: "filesystem \<Rightarrow> arguments \<Rightarrow> tool_result \<times> filesystem" where
  "write_file fs args =
     (let file_path = get_str (arg_file_path args);
          content = get_str (arg_content args)
      in if file_path = [] then (Failed (py ''Error: No file path provided''), fs)
         else
           (case open_write fs file_path content of
              (Some e, fs') \<Rightarrow> (Failed (py ''Error writing file: '' @ str_exn e), fs')
            | (None, fs') \<Rightarrow>
                (Done (py ''Successfully wrote '' @ str_int (int (length content))
                         @ py '' characters to '' @ file_path), fs')))"

text \<open>\<^verbatim>\<open>_replace_in_file\<close> of \<^verbatim>\<open>agent.py\<close>. One \<^verbatim>\<open>try\<close> covers the read and the write.\<close>

definition replace_in_file :: "filesystem \<Rightarrow> arguments \<Rightarrow> tool_result \<times> filesystem" where
  "replace_in_file fs args =
     (let file_path = get_str (arg_file_path args);
          old_text = get_str (arg_old_text args);
          new_text = get_str (arg_new_text args)
      in if file_path = [] then (Failed (py ''Error: No file path provided''), fs)
         else if old_text = [] then (Failed (py ''Error: No old text provided''), fs)
         else
           (case open_read fs file_path of
              Raises (FileNotFoundError m) \<Rightarrow>
                (Failed (py ''Error: File not found: '' @ file_path), fs)
            | Raises e \<Rightarrow> (Failed (py ''Error replacing text in file: '' @ str_exn e), fs)
            | Returns content \<Rightarrow>
                if \<not> py_in old_text content
                then (Failed (py ''Error: Text not found in file: '' @ old_text), fs)
                else
                  let new_content = py_replace content old_text new_text in
                  (case open_write fs file_path new_content of
                     (Some (FileNotFoundError m), fs') \<Rightarrow>
                       (Failed (py ''Error: File not found: '' @ file_path), fs')
                   | (Some e, fs') \<Rightarrow>
                       (Failed (py ''Error replacing text in file: '' @ str_exn e), fs')
                   | (None, fs') \<Rightarrow>
                       let count = py_count content old_text in
                       (Done (py ''Successfully replaced '' @ str_int (int count)
                                @ py '' occurrence(s) of text in '' @ file_path), fs'))))"

text \<open>
  \<^verbatim>\<open>replace_in_file\<close> of \<^verbatim>\<open>builtin_tool_executor.py\<close>. The whitespace warnings it logs
  first do not reach the result and are left out.
\<close>

definition matching_lines :: "pystr \<Rightarrow> pystr list \<Rightarrow> int list" where
  "matching_lines first_line_stripped lines =
     map (\<lambda>i. int i) (filter (\<lambda>i. py_in first_line_stripped (lines ! i)) [0..<length lines])"

definition not_found_message :: "pystr \<Rightarrow> pystr \<Rightarrow> pystr \<Rightarrow> pystr" where
  "not_found_message file_path old_text content =
     (let lines = py_split content [10];
          old_lines = py_split old_text [10];
          stripped_old = py_strip old_text
      in if stripped_old \<noteq> [] \<and> py_in stripped_old content
         then py ''Error: Text found but whitespace doesn't match in '' @ file_path
                @ py ''. Check for exact indentation, tabs vs spaces, and trailing whitespace. Use read_file to see exact formatting.''
         else if old_lines \<noteq> [] \<and> py_strip (hd old_lines) \<noteq> []
                 \<and> matching_lines (py_strip (hd old_lines)) lines \<noteq> []
         then py ''Error: Text to replace not found in '' @ file_path
                @ py ''. Found similar text on line(s) ''
                @ str_int_list (take 3 (matching_lines (py_strip (hd old_lines)) lines))
                @ py '' - check exact whitespace and indentation.''
         else py ''Error: Text to replace not found in '' @ file_path
                @ py ''. Ensure you copy the exact text including all whitespace from read_file output.'')"

definition executor_replace_in_file ::
    "filesystem \<Rightarrow> arguments \<Rightarrow> tool_result \<times> filesystem" where
  "executor_replace_in_file fs args =
     (let file_path = get_str (arg_file_path args);
          old_text = get_str (arg_old_text args);
          new_text = get_str (arg_new_text args)
      in if file_path = [] then (Failed (py ''Error: No file path provided''), fs)
         else if old_text = [] then (Failed (py ''Error: No old text to replace provided''), fs)
         else
           (case open_read fs file_path of
              Raises (FileNotFoundError m) \<Rightarrow>
                (Failed (py ''Error: File not found: '' @ file_path), fs)
            | Raises e \<Rightarrow> (Failed (py ''Error replacing text in file: '' @ str_exn e), fs)
            | Returns content \<Rightarrow>
                if \<not> py_in old_text content
                then (Failed (not_found_message file_path old_text content), fs)
                else
                  let new_content = py_replace content old_text new_text in
                  (case open_write fs file_path new_content of
                     (Some (FileNotFoundError m), fs') \<Rightarrow>
                       (Failed (py ''Error: File not found: '' @ file_path), fs')
                   | (Some e, fs') \<Rightarrow>
                       (Failed (py ''Error replacing text in file: '' @ str_exn e), fs')
                   | (None, fs') \<Rightarrow>
                       (Done (py ''Successfully replaced text in '' @ file_path), fs'))))"

section \<open>Conversation messages and the token estimate\<close>

text \<open>
  A message is a dict. \<^verbatim>\<open>role\<close> may be absent (\<^verbatim>\<open>msg.get('role', 'unknown')\<close>); the
  content is absent, a string, or some other value, of which the code only uses the
  f-string rendering.
\<close>

datatype content = NoContent | NonStr pystr | Text pystr

record message =
  role :: "pystr option"
  content :: content
  tool_call_id :: "pystr option"

definition estimate_tokens :: "pystr \<Rightarrow> int" where
  "estimate_tokens txt = int (length txt) div 4"

definition message_tokens :: "message \<Rightarrow> int" where
  "message_tokens m = (case content m of Text t \<Rightarrow> estimate_tokens t | _ \<Rightarrow> 0) + 10"

definition count_conversation_tokens :: "message list \<Rightarrow> int" where
  "count_conversation_tokens messages =
     fold (\<lambda>m total_tokens. total_tokens + message_tokens m) messages 0"

text \<open>
  \<^verbatim>\<open>should_compact\<close>: \<^verbatim>\<open>current_tokens > (limit * 0.8)\<close>. The limit is what the
  overridable method \<^verbatim>\<open>get_token_limit\<close> returns. The product is a double in Python;
  \<open>0.8\<close> rounds up by a relative \<open>2\<^sup>-\<^sup>5\<^sup>4\<close>, so for a limit that is a multiple of 5 (every
  entry of the table and the default 32000) the product rounds to the exact integer
  \<open>4 * limit / 5\<close>, and otherwise it stays strictly between the same two integers as
  the exact product: the comparison with an integer count is the comparison over the
  reals.
\<close>

definition should_compact :: "int \<Rightarrow> message list \<Rightarrow> bool" where
  "should_compact limit messages =
     (let current_tokens = count_conversation_tokens messages
      in real_of_int current_tokens > real_of_int limit * 0.8)"

section \<open>Compaction\<close>

definition role_or_unknown :: "message \<Rightarrow> pystr" where
  "role_or_unknown msg = (case role msg of Some r \<Rightarrow> r | None \<Rightarrow> py ''unknown'')"

definition content_or_empty :: "message \<Rightarrow> pystr" where
  "content_or_empty msg = (case content msg of NoContent \<Rightarrow> [] | NonStr r \<Rightarrow> r | Text t \<Rightarrow> t)"

definition system_message :: "message list \<Rightarrow> message option" where
  "system_message messages =
     (if role (hd messages) = Some (py ''system'') then Some (hd messages) else None)"

definition messages_to_summarize :: "message list \<Rightarrow> message list" where
  "messages_to_summarize messages =
     (let start_idx = (if system_message messages \<noteq> None then 1 else 0)
      in drop start_idx (take (length messages - 2) messages))"

definition summary_prompt :: "pystr \<Rightarrow> pystr" where
  "summary_prompt conversation_text = py_join [10]
     [py ''Please create a concise summary of this conversation that preserves:'',
      py ''1. Key decisions and actions taken'',
      py ''2. Important file changes or tool usage'',
      py ''3. Current project state and context'',
      py ''4. Any pending tasks or next steps'',
      [],
      py ''Conversation to summarize:'',
      conversation_text,
      [],
      py ''Provide a brief but comprehensive summary that maintains continuity for ongoing work.'']"

definition summary_messages :: "message list \<Rightarrow> message list" where
  "summary_messages messages =
     (let conversation_text = py_join [10]
            (map (\<lambda>msg. role_or_unknown msg @ py '': '' @ content_or_empty msg)
               (messages_to_summarize messages))
      in [\<lparr>role = Some (py ''user''), content = Text (summary_prompt conversation_text),
           tool_call_id = None\<rparr>])"

definition summary_message :: "pystr \<Rightarrow> message" where
  "summary_message summary_response =
     \<lparr>role = Some (py ''system''),
      content = Text (py ''[CONVERSATION SUMMARY] '' @ summary_response),
      tool_call_id = None\<rparr>"

text \<open>
  \<^verbatim>\<open>compact_conversation\<close>. The call of the model, \<^verbatim>\<open>generate_response\<close>, is the
  parameter: it returns the reply as the f-string renders it, or raises. The slices
  \<^verbatim>\<open>messages[-2:]\<close>, \<^verbatim>\<open>messages[start_idx:-2]\<close> and \<^verbatim>\<open>messages[-5:]\<close> are \<open>drop\<close> and
  \<open>take\<close> with the truncating subtraction of \<open>nat\<close>, which is what Python's slices do
  on a list shorter than the bound. The progress lines it prints are left out.
\<close>

definition compact_conversation ::
    "(message list \<Rightarrow> pystr raises) \<Rightarrow> message list \<Rightarrow> message list" where
  "compact_conversation generate_response messages =
     (if length messages \<le> 3 then messages
      else
        let recent_messages = drop (length messages - 2) messages in
        if messages_to_summarize messages = [] then messages
        else
          (case generate_response (summary_messages messages) of
             Returns summary_response \<Rightarrow>
               (case system_message messages of Some s \<Rightarrow> [s] | None \<Rightarrow> [])
                 @ [summary_message summary_response] @ recent_messages
           | Raises e \<Rightarrow>
               (case system_message messages of Some s \<Rightarrow> [s] | None \<Rightarrow> [])
                 @ drop (length messages - 5) messages))"

section \<open>Subagent task records\<close>

text \<open>
  The dict \<^verbatim>\<open>running_tasks\<close> of \<^verbatim>\<open>agent.py\<close> maps a task id to the dict that \<^verbatim>\<open>_task\<close>
  (its definition at line 1119) stores for it. A Python dict keeps its keys in
  insertion order and the code iterates over it, so it is an association list; its
  keys are distinct. The fields are those \<^verbatim>\<open>_task\<close> sets, without the process and socket
  handles; \<^verbatim>\<open>end_time\<close> is added when the task completes, and \<^verbatim>\<open>result\<close> is \<^verbatim>\<open>None\<close>
  until then. Times are
  the floats of \<^verbatim>\<open>time.time()\<close>: the model leaves their type open (any linear order
  with a subtraction) and takes the clock reading \<open>now\<close> and the format
  \<^verbatim>\<open>{:.2f}\<close> as parameters.
\<close>

record 't task_info =
  description :: pystr
  start_time :: 't
  end_time :: "'t option"
  completed :: bool
  result :: "pystr option"
  batch_id :: pystr
  output_buffer :: pystr

type_synonym 't tasks = "(pystr \<times> 't task_info) list"

text \<open>\<^verbatim>\<open>del d[k]\<close> for a key of the dict.\<close>

definition dict_del :: "'k \<Rightarrow> ('k \<times> 'v) list \<Rightarrow> ('k \<times> 'v) list" where
  "dict_del k d = filter (\<lambda>kv. fst kv \<noteq> k) d"

text \<open>\<^verbatim>\<open>task_info.get('end_time', time.time())\<close>.\<close>

definition end_or_now :: "'t \<Rightarrow> 't task_info \<Rightarrow> 't" where
  "end_or_now now task = (case end_time task of Some e \<Rightarrow> e | None \<Rightarrow> now)"

text \<open>
  The class of the subagent objects that \<^verbatim>\<open>agent.subagent_manager.subagents\<close> holds is
  in a file that is not among the sources. The record has the attributes that the
  task tools read of such an object (\<^verbatim>\<open>description\<close>, \<^verbatim>\<open>start_time\<close>, \<^verbatim>\<open>completed\<close>,
  \<^verbatim>\<open>result\<close>); the
  spec's subagent record has them too, as a description, a completed flag and a final
  result payload. The manager is \<open>None\<close> when \<^verbatim>\<open>subagent_manager\<close> is \<^verbatim>\<open>None\<close> (in a
  subagent, or when the import failed); otherwise the state is its dict \<^verbatim>\<open>subagents\<close>.
\<close>

record subagent =
  sub_description :: pystr
  sub_start_time :: real
  sub_completed :: bool
  sub_result :: "pystr option"

type_synonym manager = "(pystr \<times> subagent) list option"

text \<open>
  \<^verbatim>\<open>_task_results\<close> of \<^verbatim>\<open>agent.py\<close>. The class \<^verbatim>\<open>BaseMCPAgent\<close> defines a method of this
  name twice, at line 1609 and at line 2078; the later definition replaces the
  earlier one in the class, so it is the one \<^verbatim>\<open>_execute_builtin_tool\<close> calls for the
  tool \<^verbatim>\<open>task_results\<close> and the one modelled. It reads \<^verbatim>\<open>task_id\<close> and no other argument,
  and it contains no \<^verbatim>\<open>del\<close>: the manager is returned as it was.
\<close>

definition task_results :: "arguments \<Rightarrow> manager \<Rightarrow> tool_result \<times> manager" where
  "task_results args manager =
     (case manager of
        None \<Rightarrow> (Failed (py ''Error: Subagent management not available''), manager)
      | Some subagents \<Rightarrow>
          (case arg_task_id args of
             None \<Rightarrow> (Failed (py ''Error: task_id is required''), manager)
           | Some task_id \<Rightarrow>
               if task_id = [] then (Failed (py ''Error: task_id is required''), manager)
               else
                 (case map_of subagents task_id of
                    None \<Rightarrow> (Failed (py ''Error: Task '' @ task_id @ py '' not found''), manager)
                  | Some subagent \<Rightarrow>
                      if \<not> sub_completed subagent
                      then (Done (py ''Task '' @ task_id @ py '' is still running''), manager)
                      else
                        (case sub_result subagent of
                           Some r \<Rightarrow>
                             if r \<noteq> []
                             then (Done (py ''Task '' @ task_id @ py '' result:'' @ [10] @ r),
                                   manager)
                             else (Done (py ''Task '' @ task_id
                                           @ py '' completed but no result captured''), manager)
                         | None \<Rightarrow>
                             (Done (py ''Task '' @ task_id
                                      @ py '' completed but no result captured''), manager)))))"

text \<open>
  \<^verbatim>\<open>task_results\<close> of \<^verbatim>\<open>builtin_tool_executor.py\<close>, which deletes the records it has
  reported when \<^verbatim>\<open>clear_after_retrieval\<close> is true, its default.
\<close>

definition result_info_lines :: "pystr \<times> subagent \<Rightarrow> pystr list" where
  "result_info_lines kv =
     (let task_id = fst kv; sa = snd kv
      in [[10] @ py ''--- Task: '' @ task_id @ py '' ---'',
          py ''Description: '' @ sub_description sa,
          py ''Status: '' @ (if sub_completed sa then py ''completed'' else py ''running''),
          py ''Result: '' @ (case sub_result sa of
                               Some r \<Rightarrow> if r \<noteq> [] then r else py ''No result yet''
                             | None \<Rightarrow> py ''No result yet'')])"

definition executor_task_results :: "arguments \<Rightarrow> manager \<Rightarrow> tool_result \<times> manager" where
  "executor_task_results args manager =
     (case manager of
        None \<Rightarrow> (Failed (py ''Subagent management not available''), None)
      | Some subagents \<Rightarrow>
          let include_running = (case arg_include_running args of Some b \<Rightarrow> b | None \<Rightarrow> False);
              clear_after_retrieval =
                (case arg_clear_after_retrieval args of Some b \<Rightarrow> b | None \<Rightarrow> True);
              results = filter (\<lambda>kv. sub_completed (snd kv) \<or> include_running) subagents;
              tasks_to_remove =
                map fst (filter (\<lambda>kv. (sub_completed (snd kv) \<or> include_running)
                                      \<and> clear_after_retrieval \<and> sub_completed (snd kv)) subagents);
              subagents' = (if clear_after_retrieval then fold dict_del tasks_to_remove subagents
                            else subagents)
          in if results = [] then (Done (py ''No task results available''), Some subagents')
             else
               (Done (py_join [10]
                  ([py ''Retrieved '' @ str_int (int (length results)) @ py '' task result(s):'']
                   @ concat (map result_info_lines results)
                   @ (if clear_after_retrieval \<and> tasks_to_remove \<noteq> []
                      then [[10] @ py ''Cleared '' @ str_int (int (length tasks_to_remove))
                              @ py '' completed task(s)'']
                      else []))),
                Some subagents'))"

section \<open>Batch completion\<close>

text \<open>
  The part of the agent that \<^verbatim>\<open>_check_all_tasks_completed\<close> reads and writes: the
  live tasks, the id of the current batch (\<^verbatim>\<open>None\<close> before the first task), and the
  strings it prints, one per call of \<^verbatim>\<open>print\<close>.
\<close>

record 't task_manager =
  running_tasks :: "'t tasks"
  current_batch_id :: "pystr option"
  printed :: "pystr list"

text \<open>\<^verbatim>\<open>max(xs)\<close> and \<^verbatim>\<open>min(xs)\<close> of a list that is not empty.\<close>

definition py_max :: "('a::linorder) list \<Rightarrow> 'a" where
  "py_max xs = fold max (tl xs) (hd xs)"

definition py_min :: "('a::linorder) list \<Rightarrow> 'a" where
  "py_min xs = fold min (tl xs) (hd xs)"

text \<open>
  One block of the summary: the lines for the \<open>i\<close>-th task of the sorted batch. The
  result is appended unless it is empty or the placeholder.
\<close>

definition task_block ::
    "('t \<Rightarrow> pystr) \<Rightarrow> 't \<Rightarrow> nat \<times> pystr \<times> ('t::minus) task_info \<Rightarrow> pystr list" where
  "task_block fmt_2f now entry =
     (let i = fst entry; task_id = fst (snd entry); task_info = snd (snd entry);
          runtime = end_or_now now task_info - start_time task_info;
          runtime_str = fmt_2f runtime @ py '' seconds''
      in [[10] @ py ''--- Task '' @ str_int (int i) @ py '': '' @ task_id @ py '' ---'',
          py ''Description: '' @ description task_info,
          py ''Runtime: '' @ runtime_str,
          py ''Status: '' @ (if completed task_info then [9989] @ py '' Completed''
                             else [9203] @ py '' Running''),
          []]
         @ (case result task_info of
              Some r \<Rightarrow>
                if r \<noteq> [] \<and> r \<noteq> py ''No result available'' then [py ''Result:'', r, []] else []
            | None \<Rightarrow> []))"

text \<open>
  \<^verbatim>\<open>_generate_consolidated_summary\<close>. \<open>list_global\<close> is what the name \<^verbatim>\<open>list\<close> is bound
  to where the method runs; the call \<^verbatim>\<open>list(batch_tasks.values())\<close> at line 1734 stands
  outside every \<^verbatim>\<open>try\<close>, so when it does not return, the method ends as it ends.
  \<^verbatim>\<open>sorted(batch_tasks.items())\<close> orders the pairs by task id, as strings; the ids of a
  dict differ, so the task dicts are never compared. Every start time is a float and
  every missing end time is replaced by the clock, so the branches for invalid time
  data are not reached by a record that \<^verbatim>\<open>_task\<close> created and are left out.
\<close>

definition generate_consolidated_summary ::
    "('t task_info list \<Rightarrow> 't task_info list outcome) \<Rightarrow> ('t \<Rightarrow> pystr) \<Rightarrow> 't
       \<Rightarrow> ('t::{linorder,minus}) tasks \<Rightarrow> pystr option \<Rightarrow> pystr outcome" where
  "generate_consolidated_summary list_global fmt_2f now tasks batch =
     (if tasks = [] then Value (py ''No completed tasks to summarize.'')
      else
        let given = (batch \<noteq> None \<and> batch \<noteq> Some []);
            batch_tasks =
              (if given
               then filter (\<lambda>kv. Some (batch_id (snd kv)) = batch \<and> completed (snd kv)) tasks
               else filter (\<lambda>kv. completed (snd kv)) tasks)
        in if batch_tasks = []
           then Value (py ''No completed tasks found for the specified batch.'')
           else
             (case list_global (map snd batch_tasks) of
                Raised e \<Rightarrow> Raised e
              | SystemExit code \<Rightarrow> SystemExit code
              | Value completed_tasks \<Rightarrow>
                  let start_times = map start_time completed_tasks;
                      end_times = map (end_or_now now) completed_tasks;
                      total_runtime = py_max end_times - py_min start_times
                  in Value (py_join [10]
                       ([py ''=== SUBAGENT TASK SUMMARY (''
                           @ (case batch of
                                Some b \<Rightarrow> if b \<noteq> [] then b else py ''All Tasks''
                              | None \<Rightarrow> py ''All Tasks'') @ py '') ==='',
                         py ''Completed Tasks: '' @ str_int (int (length completed_tasks)),
                         py ''Total Runtime: '' @ fmt_2f total_runtime @ py '' seconds'',
                         [],
                         py ''=== INDIVIDUAL TASK RESULTS ==='']
                        @ concat (map (task_block fmt_2f now)
                             (zip [1..<Suc (length batch_tasks)] (sort_key fst batch_tasks)))
                        @ [py ''=== SUMMARY COMPLETE ==='',
                           [],
                           py ''All parallel subagent tasks have finished. The above results are now available'',
                           py ''for your analysis and next steps.'']))))"



text \<open>
  The body of the loop over the batches of \<^verbatim>\<open>_check_all_tasks_completed\<close>, the loop and
  the method, each with the agent afterwards and how it ended. Two lines are printed
  before the summary is generated and two after; the records are deleted last. The
  method has no \<^verbatim>\<open>try\<close>: when generating the summary does not return, the loop is
  left at once. The party popper, the clipboard and the bar chart are U+1F389,
  U+1F4CB and U+1F4CA.
\<close>

definition check_batch ::
    "('t task_info list \<Rightarrow> 't task_info list outcome) \<Rightarrow> ('t \<Rightarrow> pystr) \<Rightarrow> 't
       \<Rightarrow> pystr \<times> ('t::{linorder,minus}) tasks \<Rightarrow> 't task_manager
       \<Rightarrow> 't task_manager \<times> unit outcome" where
  "check_batch list_global fmt_2f now batch st =
     (let b = fst batch; batch_tasks = snd batch;
          completed_in_batch = filter (\<lambda>kv. completed (snd kv)) batch_tasks
      in if length completed_in_batch = length batch_tasks
            \<and> length completed_in_batch > 1
            \<and> Some b = current_batch_id st
         then
           let n = str_int (int (length completed_in_batch));
               st1 = st\<lparr>printed := printed st
                   @ [[10, 13, 127881] @ py '' [TASK MANAGER] All '' @ n
                        @ py '' subagent tasks in '' @ b @ py '' have completed!'' @ [13],
                      [128203] @ py '' [TASK MANAGER] Generating consolidated summary...''
                        @ [13]]\<rparr>
           in (case generate_consolidated_summary list_global fmt_2f now (running_tasks st1)
                       (Some b) of
                 Raised e \<Rightarrow> (st1, Raised e)
               | SystemExit code \<Rightarrow> (st1, SystemExit code)
               | Value summary \<Rightarrow>
                   (st1\<lparr>printed := printed st1
                          @ [[10, 13, 128202]
                               @ py '' [SUBAGENT SUMMARY] Consolidated Results from ''
                               @ b @ py '' ('' @ n @ py '' tasks):'' @ [13],
                             summary @ [13]],
                        running_tasks := fold dict_del (map fst batch_tasks) (running_tasks st1)\<rparr>,
                    Value ()))
         else (st, Value ()))"

fun check_batches ::
    "('t task_info list \<Rightarrow> 't task_info list outcome) \<Rightarrow> ('t \<Rightarrow> pystr) \<Rightarrow> 't
       \<Rightarrow> (pystr \<times> ('t::{linorder,minus}) tasks) list \<Rightarrow> 't task_manager
       \<Rightarrow> 't task_manager \<times> unit outcome" where
  "check_batches list_global fmt_2f now [] st = (st, Value ())"
| "check_batches list_global fmt_2f now (batch # batches) st =
     (case check_batch list_global fmt_2f now batch st of
        (st', Value u) \<Rightarrow> check_batches list_global fmt_2f now batches st'
      | (st', Raised e) \<Rightarrow> (st', Raised e)
      | (st', SystemExit code) \<Rightarrow> (st', SystemExit code))"

section \<open>Further built-in tools\<close>

text \<open>
  What \<^verbatim>\<open>subprocess.run\<close> gives back for a finished child: the return code and the
  two captured streams as text. The call can also raise (\<^verbatim>\<open>TimeoutExpired\<close>, or an
  \<^verbatim>\<open>OSError\<close> when the program cannot be started).
\<close>

record completed_process =
  returncode :: int
  stdout :: pystr
  stderr :: pystr

text \<open>\<^verbatim>\<open>_bash_execute\<close> of \<^verbatim>\<open>agent.py\<close>; \<open>run\<close> is the outcome of \<^verbatim>\<open>subprocess.run\<close>.\<close>

definition bash_execute :: "completed_process raises \<Rightarrow> arguments \<Rightarrow> tool_result" where
  "bash_execute run args =
     (let command = get_str (arg_command args);
          timeout = (case arg_timeout args of Some t \<Rightarrow> t | None \<Rightarrow> 120)
      in if command = [] then Failed (py ''Error: No command provided'')
         else
           (case run of
              Raises (TimeoutExpired m) \<Rightarrow>
                Failed (py ''Error: Command timed out after '' @ str_int timeout @ py '' seconds'')
            | Raises e \<Rightarrow> Failed (py ''Error executing command: '' @ str_exn e)
            | Returns r \<Rightarrow>
                let output =
                      (if stdout r \<noteq> [] then py ''STDOUT:'' @ [10] @ stdout r else [])
                      @ (if stderr r \<noteq> [] then [10] @ py ''STDERR:'' @ [10] @ stderr r else [])
                      @ (if returncode r \<noteq> 0
                         then [10] @ py ''Return code: '' @ str_int (returncode r) else [])
                in Done (if output \<noteq> [] then output
                         else py ''Command executed successfully (no output)'')))"

text \<open>
  \<^verbatim>\<open>_webfetch\<close> of \<^verbatim>\<open>agent.py\<close>, which runs curl. It has no \<^verbatim>\<open>try\<close>: what
  \<^verbatim>\<open>subprocess.run\<close> raises leaves the method. The captured bytes are taken as
  already decoded (UTF-8, or Latin-1 when that fails, which never raises).
\<close>

definition webfetch :: "completed_process raises \<Rightarrow> arguments \<Rightarrow> tool_result raises" where
  "webfetch run args =
     (let url = get_str (arg_url args);
          limit = (case arg_limit args of Some l \<Rightarrow> l | None \<Rightarrow> 1000)
      in if url = [] then Returns (Failed (py ''Error: No URL provided''))
         else
           (case run of
              Raises e \<Rightarrow> Raises e
            | Returns r \<Rightarrow>
                let content = stdout r in
                if returncode r \<noteq> 0
                then
                  let error_msg = py ''Error fetching URL (curl return code ''
                        @ str_int (returncode r) @ py ''): '' @ stderr r
                  in if py_strip content \<noteq> []
                     then Returns (Failed (error_msg @ [10, 10] @ py ''Content retrieved:''
                                     @ [10] @ content))
                     else Returns (Failed error_msg)
                else if limit > 0 \<and> int (length (py_split content [10])) > limit
                then Returns (Done (py_join [10] (take (nat limit) (py_split content [10]))
                        @ [10, 10] @ py ''[Content truncated at '' @ str_int limit
                        @ py '' lines. Original had ''
                        @ str_int (int (length (py_split content [10]))) @ py '' lines.]''))
                else Returns (Done content)))"

section \<open>The dispatcher\<close>



text \<open>
  A value of a parsed JSON object, as the method uses it: it is compared with a
  string, tested for truth, rendered by an f-string or returned. Numbers, arrays and
  objects are \<open>JOther\<close>, with their \<^verbatim>\<open>str\<close> and their truth value.
\<close>

datatype json_value = JString pystr | JNull | JBool bool | JOther pystr bool



text \<open>
  What \<^verbatim>\<open>json.loads\<close> makes of a line: not JSON (\<^verbatim>\<open>JSONDecodeError\<close>), JSON that is not
  an object (reading a key of it raises \<^verbatim>\<open>AttributeError\<close>), or an object, of which the
  code reads five keys with \<^verbatim>\<open>response.get\<close>: each is absent or holds a value.
\<close>

record response =
  resp_type :: "json_value option"
  resp_request_id :: "json_value option"
  resp_success :: "json_value option"
  resp_result :: "json_value option"
  resp_error :: "json_value option"


















section \<open>Streaming a response in the interactive chat loop\<close>

text \<open>
  The streaming branch of \<^verbatim>\<open>interactive_chat\<close>. One \<open>tick\<close> is what one pass of the
  \<^verbatim>\<open>async for\<close> sees: the item the stream yields (a chunk, as \<^verbatim>\<open>str\<close> renders it when
  it is not a string, or an exception), the character \<^verbatim>\<open>sys.stdin.read(1)\<close> returns
  when \<^verbatim>\<open>select\<close> reports standard input readable (\<open>None\<close> when it is not), and
  the value of \<^verbatim>\<open>input_handler.interrupted\<close> at that moment.
\<close>

datatype stream_item = Chunk pystr | StreamRaises exn

record tick =
  tick_item :: stream_item
  tick_key :: "nat option"
  tick_interrupted :: bool

datatype loop_end = Exhausted | Interrupted | LoopRaises exn

text \<open>
  The loop, with \<^verbatim>\<open>full_response\<close> and what has been written to standard output as
  accumulators. The escape key is the code point 27; a newline of a chunk is shown
  as carriage return and newline.
\<close>

fun consume :: "tick list \<Rightarrow> pystr \<Rightarrow> pystr list \<Rightarrow> pystr \<times> pystr list \<times> loop_end" where
  "consume [] full_response out = (full_response, out, Exhausted)"
| "consume (t # ts) full_response out =
     (case tick_item t of
        StreamRaises e \<Rightarrow> (full_response, out, LoopRaises e)
      | Chunk chunk \<Rightarrow>
          if tick_key t = Some 27 then (full_response, out, Interrupted)
          else if tick_interrupted t then (full_response, out, Interrupted)
          else consume ts (full_response @ chunk) (out @ [py_replace chunk [10] [13, 10]]))"

record 'tty chat =
  chat_messages :: "message list"
  chat_terminal :: 'tty
  chat_stdout :: "pystr list"

definition assistant_message :: "pystr \<Rightarrow> message" where
  "assistant_message full_response =
     \<lparr>role = Some (py ''assistant''), content = Text full_response, tool_call_id = None\<rparr>"

text \<open>
  The branch itself: the attributes of the terminal are saved, the terminal is put
  in raw mode (\<open>setraw\<close>), the stream is consumed, and the \<^verbatim>\<open>finally\<close> block restores
  the saved attributes and prints the closing line. Then the assistant message is
  appended under the test \<^verbatim>\<open>if full_response:\<close>. An exception of the stream passes
  the \<^verbatim>\<open>finally\<close> block and reaches the \<^verbatim>\<open>except Exception\<close> of the chat loop, which
  prints it. The sign printed before \<open>Streaming interrupted by user\<close> is the code
  point 128721.
\<close>

definition stream_response :: "('tty \<Rightarrow> 'tty) \<Rightarrow> tick list \<Rightarrow> 'tty chat \<Rightarrow> 'tty chat" where
  "stream_response setraw response st =
     (let st1 = st\<lparr>chat_stdout := chat_stdout st @
                  [[10] @ py ''Assistant (press ESC to interrupt):'' @ [10]]\<rparr>;
          old_settings = chat_terminal st1;
          st2 = st1\<lparr>chat_terminal := setraw old_settings\<rparr>;
          (full_response, out, ending) = consume response [] (chat_stdout st2);
          st3 = st2\<lparr>chat_stdout := out\<rparr>;
          st4 = st3\<lparr>chat_terminal := old_settings\<rparr>;
          st5 = st4\<lparr>chat_stdout := chat_stdout st4 @
                  [if ending = Interrupted
                   then [10, 128721] @ py '' Streaming interrupted by user'' @ [10]
                   else [10]]\<rparr>
      in case ending of
           LoopRaises e \<Rightarrow>
             st5\<lparr>chat_stdout := chat_stdout st5 @ [[10] @ py ''Error: '' @ str_exn e @ [10]]\<rparr>
         | _ \<Rightarrow>
             if full_response \<noteq> []
             then st5\<lparr>chat_messages := chat_messages st5 @ [assistant_message full_response]\<rparr>
             else st5)"

section \<open>The claims' reading of the replacement\<close>

text \<open>
  Not the code: what claim C3 says the replacement is, only the first match replaced.
  It is compared with \<open>py_replace\<close>, which is what both executors call.
\<close>

fun spec_replace_first :: "pystr \<Rightarrow> pystr \<Rightarrow> pystr \<Rightarrow> pystr" where
  "spec_replace_first [] old new = (if old = [] then new else [])"
| "spec_replace_first (c # cs) old new =
     (if prefix old (c # cs) then new @ drop (length old) (c # cs)
      else c # spec_replace_first cs old new)"


section \<open>Properties of the string operations\<close>

lemma py_in_iff: "py_in sub s \<longleftrightarrow> (\<exists>ps ss. s = ps @ sub @ ss)"
proof (induction s)
  case Nil
  then show ?case by auto
next
  case (Cons c cs)
  show ?case
  proof
    assume "py_in sub (c # cs)"
    then consider "prefix sub (c # cs)" | "py_in sub cs" by auto
    then show "\<exists>ps ss. c # cs = ps @ sub @ ss"
    proof cases
      case 1
      then obtain ss where "c # cs = sub @ ss" by (auto simp: prefix_def)
      then have "c # cs = [] @ sub @ ss" by simp
      then show ?thesis by blast
    next
      case 2
      with Cons.IH obtain ps ss where "cs = ps @ sub @ ss" by blast
      then have "c # cs = (c # ps) @ sub @ ss" by simp
      then show ?thesis by blast
    qed
  next
    assume "\<exists>ps ss. c # cs = ps @ sub @ ss"
    then obtain ps ss where eq: "c # cs = ps @ sub @ ss" by blast
    show "py_in sub (c # cs)"
    proof (cases ps)
      case Nil
      with eq have "prefix sub (c # cs)" by (auto simp: prefix_def)
      then show ?thesis by simp
    next
      case (Cons p ps')
      with eq have "cs = ps' @ sub @ ss" by simp
      with Cons.IH have "py_in sub cs" by blast
      then show ?thesis by simp
    qed
  qed
qed

lemma py_split_nonempty: "py_split s sep \<noteq> []"
  by (induction s sep rule: py_split.induct) (auto split: list.splits)

lemma py_join_Cons: "ps \<noteq> [] \<Longrightarrow> py_join sep (p # ps) = p @ sep @ py_join sep ps"
  by (cases ps) simp_all

lemma py_join_Cons_hd: "py_join sep ((c # p) # ps) = c # py_join sep (p # ps)"
  by (cases ps) simp_all

lemma py_join_split: "sep \<noteq> [] \<Longrightarrow> py_join sep (py_split s sep) = s"
proof (induction s sep rule: py_split.induct)
  case (1 sep)
  then show ?case by simp
next
  case (2 c cs sep)
  show ?case
  proof (cases "prefix sep (c # cs)")
    case True
    then have "sep @ drop (length sep) (c # cs) = c # cs"
      by (metis append_eq_conv_conj prefix_def)
    with 2 True show ?thesis
      by (simp add: py_join_Cons py_split_nonempty)
  next
    case False
    obtain p ps where sp: "py_split cs sep = p # ps"
      using py_split_nonempty [of cs sep] by (cases "py_split cs sep") auto
    with 2 False show ?thesis
      by (simp add: py_join_Cons_hd)
  qed
qed

lemma py_replace_split:
  "old \<noteq> [] \<Longrightarrow> py_replace s old new = py_join new (py_split s old)"
proof (induction s old rule: py_split.induct)
  case (1 sep)
  then show ?case by simp
next
  case (2 c cs sep)
  show ?case
  proof (cases "prefix sep (c # cs)")
    case True
    with 2 show ?thesis
      by (simp add: py_join_Cons py_split_nonempty)
  next
    case False
    obtain p ps where sp: "py_split cs sep = p # ps"
      using py_split_nonempty [of cs sep] by (cases "py_split cs sep") auto
    with 2 False show ?thesis
      by (simp add: py_join_Cons_hd)
  qed
qed

lemma py_count_split:
  "sub \<noteq> [] \<Longrightarrow> Suc (py_count s sub) = length (py_split s sub)"
proof (induction s sub rule: py_split.induct)
  case (1 sep)
  then show ?case by simp
next
  case (2 c cs sep)
  show ?case
  proof (cases "prefix sep (c # cs)")
    case True
    with 2 show ?thesis by simp
  next
    case False
    obtain p ps where sp: "py_split cs sep = p # ps"
      using py_split_nonempty [of cs sep] by (cases "py_split cs sep") auto
    with 2 False show ?thesis by simp
  qed
qed

lemma hd_py_split_prefix: "prefix (hd (py_split s sep)) s"
  by (induction s sep rule: py_split.induct) (auto split: list.splits)

lemma py_split_pieces:
  "sep \<noteq> [] \<Longrightarrow> p \<in> set (py_split s sep) \<Longrightarrow> \<not> py_in sep p"
proof (induction s sep arbitrary: p rule: py_split.induct)
  case (1 sep)
  then show ?case by simp
next
  case (2 c cs sep)
  show ?case
  proof (cases "prefix sep (c # cs)")
    case True
    with 2 show ?thesis by auto
  next
    case False
    obtain q qs where sp: "py_split cs sep = q # qs"
      using py_split_nonempty [of cs sep] by (cases "py_split cs sep") auto
    from hd_py_split_prefix [of cs sep] sp have pq: "prefix q cs" by simp
    from "2.prems"(2) False sp have "p = c # q \<or> p \<in> set qs" by simp
    then show ?thesis
    proof
      assume p: "p = c # q"
      have "\<not> prefix sep (c # q)"
        using False pq by (meson Cons_prefix_Cons prefix_order.trans)
      moreover have "\<not> py_in sep q" using "2.IH"(2) [of q] False sp "2.prems"(1) by simp
      ultimately show ?thesis using p by simp
    next
      assume "p \<in> set qs"
      then show ?thesis using "2.IH"(2) [of p] False sp "2.prems"(1) by simp
    qed
  qed
qed

lemma py_count_pos: "sub \<noteq> [] \<Longrightarrow> py_in sub s \<Longrightarrow> 0 < py_count s sub"
proof (induction s sub rule: py_count.induct)
  case (1 sub)
  then show ?case by simp
next
  case (2 c cs sub)
  then show ?case by (cases "prefix sub (c # cs)") auto
qed

lemma py_replace_absent: "old \<noteq> [] \<Longrightarrow> \<not> py_in old s \<Longrightarrow> py_replace s old new = s"
proof (induction s old new rule: py_replace.induct)
  case (1 old new)
  then show ?case by simp
next
  case (2 c cs old new)
  then show ?case by (cases "prefix old (c # cs)") auto
qed






lemma digits_small: "n < 10 \<Longrightarrow> digits n = [48 + n]"
  by (subst digits.simps) simp















subsection \<open>Text that UTF-8 can encode\<close>

lemma encodable_Nil: "encodable []"
  by (simp add: encodable_def)

lemma encodable_Cons: "encodable (c # cs) \<longleftrightarrow> \<not> surrogate c \<and> encodable cs"
  by (simp add: encodable_def)

lemma encodable_append: "encodable (a @ b) \<longleftrightarrow> encodable a \<and> encodable b"
  by (simp add: encodable_def)

lemma encodable_drop: "encodable s \<Longrightarrow> encodable (drop n s)"
  unfolding encodable_def list_all_iff by (meson in_set_dropD)

lemma encodable_py: "encodable (py cs)"
proof -
  have "\<not> surrogate (of_char c)" for c :: char
  proof -
    have "of_char c < (256 :: nat)" by (metis of_char_mod_256 mod_less_divisor zero_less_numeral)
    then show ?thesis unfolding surrogate_def by linarith
  qed
  then show ?thesis by (simp add: encodable_def py_def list_all_iff)
qed

lemma encodable_py_replace:
  "encodable s \<Longrightarrow> encodable new \<Longrightarrow> encodable (py_replace s old new)"
proof (induction s old new rule: py_replace.induct)
  case (1 old new)
  then show ?case by (simp add: encodable_Nil)
next
  case (2 c cs old new)
  from "2.prems" have cs: "encodable cs" and c: "\<not> surrogate c"
    by (simp_all add: encodable_Cons)
  from "2.prems"(1) have dr: "encodable (drop (length old) (c # cs))" by (rule encodable_drop)
  show ?case
  proof (cases "old = []")
    case True
    with 2 cs c show ?thesis by (simp add: encodable_append encodable_Cons)
  next
    case False
    show ?thesis
    proof (cases "prefix old (c # cs)")
      case True
      with False "2.IH"(2) [OF False True dr "2.prems"(2)] "2.prems"(2)
      show ?thesis by (simp add: encodable_append)
    next
      case np: False
      with False "2.IH"(3) [OF False np cs "2.prems"(2)] c
      show ?thesis by (simp add: encodable_Cons)
    qed
  qed
qed


lemma encodable_universal_newlines:
  "encodable s \<Longrightarrow> encodable (universal_newlines s)"
  by (induction s rule: universal_newlines.induct)
    (auto simp: encodable_Cons encodable_Nil surrogate_def)
section \<open>Properties of the token estimate\<close>

lemma fold_message_tokens:
  "fold (\<lambda>m t. t + message_tokens m) ms a = a + sum_list (map message_tokens ms)"
  by (induction ms arbitrary: a) simp_all

lemma count_conversation_tokens_sum:
  "count_conversation_tokens ms = sum_list (map message_tokens ms)"
  by (simp add: count_conversation_tokens_def fold_message_tokens)

lemma count_conversation_tokens_append:
  "count_conversation_tokens (xs @ ys) =
     count_conversation_tokens xs + count_conversation_tokens ys"
  by (simp add: count_conversation_tokens_sum)

lemma count_conversation_tokens_Cons:
  "count_conversation_tokens (m # ms) = message_tokens m + count_conversation_tokens ms"
  by (simp add: count_conversation_tokens_sum)

lemma count_conversation_tokens_Nil: "count_conversation_tokens [] = 0"
  by (simp add: count_conversation_tokens_sum)

lemma should_compact_int:
  "should_compact limit ms \<longleftrightarrow> 4 * limit < 5 * count_conversation_tokens ms"
proof -
  have "real_of_int limit * 0.8 < real_of_int (count_conversation_tokens ms)
          \<longleftrightarrow> real_of_int (4 * limit) < real_of_int (5 * count_conversation_tokens ms)"
    by (simp add: field_simps)
  then show ?thesis
    unfolding should_compact_def Let_def of_int_less_iff by simp
qed

text \<open>
  C8. As stated the claim contradicts itself: the trigger is the strict comparison, so
  at a count of exactly 80 percent of the limit compaction does not run. The default
  limit is 32000; one message of 102360 characters is estimated at 25590 + 10 = 25600
  tokens, exactly 80 percent.
\<close>

theorem should_compact_at_80_percent_counterexample:
  "5 * count_conversation_tokens
         [\<lparr>role = Some (py ''user''), content = Text (replicate 102360 97), tool_call_id = None\<rparr>]
       = 4 * 32000
   \<and> \<not> should_compact 32000
         [\<lparr>role = Some (py ''user''), content = Text (replicate 102360 97), tool_call_id = None\<rparr>]"
  by (simp add: should_compact_int count_conversation_tokens_Cons count_conversation_tokens_Nil
        message_tokens_def estimate_tokens_def)

text \<open>
  C8, amended. Compaction is triggered exactly when the estimated token count is
  strictly greater than 0.8 times the limit. For a positive limit: at a count equal to
  80 percent of the limit it does not trigger, one token above that it does, and at 79
  percent it does not.
\<close>

theorem should_compact_threshold:
  "(should_compact limit ms \<longleftrightarrow>
      real_of_int (count_conversation_tokens ms) > 0.8 * real_of_int limit)
   \<and> (5 * count_conversation_tokens ms = 4 * limit \<longrightarrow> \<not> should_compact limit ms)
   \<and> (5 * (count_conversation_tokens ms - 1) = 4 * limit \<longrightarrow> should_compact limit ms)
   \<and> (0 < limit \<and> 100 * count_conversation_tokens ms = 79 * limit
        \<longrightarrow> \<not> should_compact limit ms)"
proof (intro conjI impI)
  show "should_compact limit ms \<longleftrightarrow>
      real_of_int (count_conversation_tokens ms) > 0.8 * real_of_int limit"
    by (simp add: should_compact_def Let_def mult.commute)
next
  assume "5 * count_conversation_tokens ms = 4 * limit"
  then show "\<not> should_compact limit ms" by (simp add: should_compact_int)
next
  assume "5 * (count_conversation_tokens ms - 1) = 4 * limit"
  then show "should_compact limit ms" by (simp add: should_compact_int)
next
  assume "0 < limit \<and> 100 * count_conversation_tokens ms = 79 * limit"
  then show "\<not> should_compact limit ms" by (simp add: should_compact_int)
qed

theorem should_compact_threshold_witness:
  "\<not> should_compact 50 (replicate 4 \<lparr>role = None, content = NoContent, tool_call_id = None\<rparr>)
   \<and> should_compact 45 (replicate 4 \<lparr>role = None, content = NoContent, tool_call_id = None\<rparr>)
   \<and> 5 * count_conversation_tokens
            (replicate 4 \<lparr>role = None, content = NoContent, tool_call_id = None\<rparr>) = 4 * 50
   \<and> \<not> should_compact 4000 (replicate 316 \<lparr>role = None, content = NoContent, tool_call_id = None\<rparr>)
   \<and> 100 * count_conversation_tokens
            (replicate 316 \<lparr>role = None, content = NoContent, tool_call_id = None\<rparr>) = 79 * 4000"
proof -
  let ?m = "\<lparr>role = None, content = NoContent, tool_call_id = None\<rparr>"
  have c: "count_conversation_tokens (replicate n ?m) = 10 * int n" for n
    by (induction n) (simp_all add: count_conversation_tokens_sum message_tokens_def)
  have c4: "count_conversation_tokens (replicate 4 ?m) = 40"
    using c [of 4] by simp
  have c316: "count_conversation_tokens (replicate 316 ?m) = 3160"
    using c [of 316] by simp
  from should_compact_threshold [of 50 "replicate 4 ?m"]
       should_compact_threshold [of 45 "replicate 4 ?m"]
       should_compact_threshold [of 4000 "replicate 316 ?m"]
  show ?thesis by (simp add: c4 c316)
qed

section \<open>Properties of compaction\<close>

lemma system_part_take:
  "ms \<noteq> [] \<Longrightarrow> (case system_message ms of Some s \<Rightarrow> [s] | None \<Rightarrow> []) =
     take (if system_message ms \<noteq> None then 1 else 0) ms"
  by (cases ms) (simp_all add: system_message_def)

lemma messages_split:
  assumes "3 < length ms"
  shows "ms = (case system_message ms of Some s \<Rightarrow> [s] | None \<Rightarrow> [])
            @ messages_to_summarize ms @ drop (length ms - 2) ms"
proof -
  let ?k = "if system_message ms \<noteq> None then 1 else (0::nat)"
  from assms have ne: "ms \<noteq> []" by auto
  have "take ?k ms = take ?k (take (length ms - 2) ms)"
    using assms by (simp add: min_def)
  then have "take ?k ms @ drop ?k (take (length ms - 2) ms) = take (length ms - 2) ms"
    by (metis append_take_drop_id)
  then have "take ?k ms @ drop ?k (take (length ms - 2) ms) @ drop (length ms - 2) ms = ms"
    by (metis append.assoc append_take_drop_id)
  then show ?thesis
    unfolding system_part_take [OF ne] messages_to_summarize_def Let_def by simp
qed

lemma messages_to_summarize_nonempty:
  "3 < length ms \<Longrightarrow> messages_to_summarize ms \<noteq> []"
  by (auto simp: messages_to_summarize_def Let_def)

lemma compact_conversation_Return:
  assumes "3 < length ms" and "g (summary_messages ms) = Returns s"
  shows "compact_conversation g ms =
           (case system_message ms of Some s \<Rightarrow> [s] | None \<Rightarrow> [])
             @ [summary_message s] @ drop (length ms - 2) ms"
  using assms messages_to_summarize_nonempty [OF assms(1)]
  by (simp add: compact_conversation_def Let_def)

lemma compact_conversation_Raise:
  assumes "3 < length ms" and "g (summary_messages ms) = Raises e"
  shows "compact_conversation g ms =
           (case system_message ms of Some s \<Rightarrow> [s] | None \<Rightarrow> [])
             @ drop (length ms - 5) ms"
  using assms messages_to_summarize_nonempty [OF assms(1)]
  by (simp add: compact_conversation_def Let_def)

lemma drop_last2_append:
  "2 \<le> length ys \<Longrightarrow> drop (length (xs @ ys) - 2) (xs @ ys) = drop (length ys - 2) ys"
  by simp

lemma compact_keeps_last_two:
  assumes "3 < length ms"
  shows "drop (length (compact_conversation g ms) - 2) (compact_conversation g ms)
           = drop (length ms - 2) ms"
proof (cases "g (summary_messages ms)")
  case (Returns s)
  let ?pre = "(case system_message ms of Some s \<Rightarrow> [s] | None \<Rightarrow> []) @ [summary_message s]"
  have "compact_conversation g ms = ?pre @ drop (length ms - 2) ms"
    using compact_conversation_Return [where g = g, OF assms Returns] by simp
  moreover have "length (drop (length ms - 2) ms) = 2" using assms by simp
  ultimately show ?thesis by simp
next
  case (Raises e)
  let ?pre = "(case system_message ms of Some s \<Rightarrow> [s] | None \<Rightarrow> [])"
  have eq: "compact_conversation g ms = ?pre @ drop (length ms - 5) ms"
    using compact_conversation_Raise [where g = g, OF assms Raises] by simp
  have "2 \<le> length (drop (length ms - 5) ms)" using assms by simp
  then have "drop (length (?pre @ drop (length ms - 5) ms) - 2) (?pre @ drop (length ms - 5) ms)
      = drop (length (drop (length ms - 5) ms) - 2) (drop (length ms - 5) ms)"
    by (rule drop_last2_append)
  also have "\<dots> = drop (length ms - 2) ms"
    using assms by (simp add: min_def) 
  finally show ?thesis using eq by simp
qed

lemma compact_keeps_system:
  assumes "3 < length ms" and "role (hd ms) = Some (py ''system'')"
  shows "hd (compact_conversation g ms) = hd ms"
proof -
  have "system_message ms = Some (hd ms)" using assms(2) by (simp add: system_message_def)
  then show ?thesis
    using compact_conversation_Return [where g = g, OF assms(1)]
      compact_conversation_Raise [where g = g, OF assms(1)]
    by (cases "g (summary_messages ms)") simp_all
qed

lemma compact_tokens:
  assumes "3 < length ms" and "g (summary_messages ms) = Returns s"
  shows "count_conversation_tokens (compact_conversation g ms) - count_conversation_tokens ms
     = message_tokens (summary_message s) - count_conversation_tokens (messages_to_summarize ms)"
proof -
  let ?pre = "(case system_message ms of Some s \<Rightarrow> [s] | None \<Rightarrow> [])"
  have "count_conversation_tokens ms = count_conversation_tokens ?pre
     + count_conversation_tokens (messages_to_summarize ms)
     + count_conversation_tokens (drop (length ms - 2) ms)"
    using messages_split [OF assms(1)]
    by (metis count_conversation_tokens_append add.assoc)
  then show ?thesis
    unfolding compact_conversation_Return [where g = g, OF assms]
    by (simp add: count_conversation_tokens_append count_conversation_tokens_Cons count_conversation_tokens_Nil)
qed

lemma summary_message_tokens:
  "message_tokens (summary_message s) = (23 + int (length s)) div 4 + 10"
  by (simp add: message_tokens_def summary_message_def estimate_tokens_def py_def)

text \<open>
  C2. The token estimate does not always decrease: the summary is whatever the model
  returns, and the summary message costs its own 10 tokens plus the 23 characters of
  its tag. A system prompt, a two-character user message and the last two messages,
  summarised as \<open>The user said hi.\<close>, go from 47 to 57 estimated tokens.
\<close>

theorem compact_conversation_tokens_counterexample:
  "length [\<lparr>role = Some (py ''system''), content = Text (py ''You are helpful.''), tool_call_id = None\<rparr>,
           \<lparr>role = Some (py ''user''), content = Text (py ''hi''), tool_call_id = None\<rparr>,
           \<lparr>role = Some (py ''assistant''), content = Text (py ''hello''), tool_call_id = None\<rparr>,
           \<lparr>role = Some (py ''user''), content = Text (py ''list files''), tool_call_id = None\<rparr>] = 4
   \<and> count_conversation_tokens
         [\<lparr>role = Some (py ''system''), content = Text (py ''You are helpful.''), tool_call_id = None\<rparr>,
          \<lparr>role = Some (py ''user''), content = Text (py ''hi''), tool_call_id = None\<rparr>,
          \<lparr>role = Some (py ''assistant''), content = Text (py ''hello''), tool_call_id = None\<rparr>,
          \<lparr>role = Some (py ''user''), content = Text (py ''list files''), tool_call_id = None\<rparr>] = 47
   \<and> count_conversation_tokens
         (compact_conversation (\<lambda>request. Returns (py ''The user said hi.''))
           [\<lparr>role = Some (py ''system''), content = Text (py ''You are helpful.''), tool_call_id = None\<rparr>,
            \<lparr>role = Some (py ''user''), content = Text (py ''hi''), tool_call_id = None\<rparr>,
            \<lparr>role = Some (py ''assistant''), content = Text (py ''hello''), tool_call_id = None\<rparr>,
            \<lparr>role = Some (py ''user''), content = Text (py ''list files''), tool_call_id = None\<rparr>]) = 57"
  by (simp add: compact_conversation_def messages_to_summarize_def system_message_def
        summary_message_def count_conversation_tokens_Cons count_conversation_tokens_Nil
        message_tokens_def estimate_tokens_def py_def)

text \<open>
  C2, amended. For every conversation of more than 3 messages, the compacted list
  starts with the old first message whenever that had role system, and ends with the
  last two old messages unchanged, whether the summary call returns or raises. When
  the summary call returns \<open>s\<close>, the estimated total is strictly smaller than before
  exactly when the summary message's own estimate, \<open>(23 + len(s)) div 4 + 10\<close>, is
  smaller than the estimate of the messages it replaces.
\<close>

theorem compact_conversation_preserves:
  assumes "3 < length ms"
  shows "(role (hd ms) = Some (py ''system'') \<longrightarrow> hd (compact_conversation g ms) = hd ms)
     \<and> drop (length (compact_conversation g ms) - 2) (compact_conversation g ms)
         = drop (length ms - 2) ms
     \<and> (\<forall>s. g (summary_messages ms) = Returns s \<longrightarrow>
          (count_conversation_tokens (compact_conversation g ms) < count_conversation_tokens ms
            \<longleftrightarrow> (23 + int (length s)) div 4 + 10
                  < count_conversation_tokens (messages_to_summarize ms)))"
proof (intro conjI impI allI)
  assume "role (hd ms) = Some (py ''system'')"
  with assms show "hd (compact_conversation g ms) = hd ms"
    by (rule compact_keeps_system)
next
  from assms show "drop (length (compact_conversation g ms) - 2) (compact_conversation g ms)
         = drop (length ms - 2) ms"
    by (rule compact_keeps_last_two)
next
  fix s assume "g (summary_messages ms) = Returns s"
  from compact_tokens [where g = g, OF assms this]
  show "count_conversation_tokens (compact_conversation g ms) < count_conversation_tokens ms
            \<longleftrightarrow> (23 + int (length s)) div 4 + 10
                  < count_conversation_tokens (messages_to_summarize ms)"
    unfolding summary_message_tokens by linarith
qed

theorem compact_conversation_preserves_witness:
  "3 < length [\<lparr>role = Some (py ''system''), content = Text (py ''You are helpful.''), tool_call_id = None\<rparr>,
           \<lparr>role = Some (py ''user''), content = Text (replicate 400 97), tool_call_id = None\<rparr>,
           \<lparr>role = Some (py ''assistant''), content = Text (py ''hello''), tool_call_id = None\<rparr>,
           \<lparr>role = Some (py ''user''), content = Text (py ''list files''), tool_call_id = None\<rparr>]
   \<and> hd (compact_conversation (\<lambda>request. Returns (py ''The user said hi.''))
          [\<lparr>role = Some (py ''system''), content = Text (py ''You are helpful.''), tool_call_id = None\<rparr>,
           \<lparr>role = Some (py ''user''), content = Text (replicate 400 97), tool_call_id = None\<rparr>,
           \<lparr>role = Some (py ''assistant''), content = Text (py ''hello''), tool_call_id = None\<rparr>,
           \<lparr>role = Some (py ''user''), content = Text (py ''list files''), tool_call_id = None\<rparr>])
       = \<lparr>role = Some (py ''system''), content = Text (py ''You are helpful.''), tool_call_id = None\<rparr>
   \<and> count_conversation_tokens
        (compact_conversation (\<lambda>request. Returns (py ''The user said hi.''))
          [\<lparr>role = Some (py ''system''), content = Text (py ''You are helpful.''), tool_call_id = None\<rparr>,
           \<lparr>role = Some (py ''user''), content = Text (replicate 400 97), tool_call_id = None\<rparr>,
           \<lparr>role = Some (py ''assistant''), content = Text (py ''hello''), tool_call_id = None\<rparr>,
           \<lparr>role = Some (py ''user''), content = Text (py ''list files''), tool_call_id = None\<rparr>])
      < count_conversation_tokens
          [\<lparr>role = Some (py ''system''), content = Text (py ''You are helpful.''), tool_call_id = None\<rparr>,
           \<lparr>role = Some (py ''user''), content = Text (replicate 400 97), tool_call_id = None\<rparr>,
           \<lparr>role = Some (py ''assistant''), content = Text (py ''hello''), tool_call_id = None\<rparr>,
           \<lparr>role = Some (py ''user''), content = Text (py ''list files''), tool_call_id = None\<rparr>]"
proof -
  let ?ms = "[\<lparr>role = Some (py ''system''), content = Text (py ''You are helpful.''), tool_call_id = None\<rparr>,
           \<lparr>role = Some (py ''user''), content = Text (replicate 400 97), tool_call_id = None\<rparr>,
           \<lparr>role = Some (py ''assistant''), content = Text (py ''hello''), tool_call_id = None\<rparr>,
           \<lparr>role = Some (py ''user''), content = Text (py ''list files''), tool_call_id = None\<rparr>]"
  let ?g = "\<lambda>request::message list. Returns (py ''The user said hi.'')"
  have len: "3 < length ?ms" by simp
  have mid: "count_conversation_tokens (messages_to_summarize ?ms) = 110"
    by (simp add: messages_to_summarize_def system_message_def count_conversation_tokens_Cons
          count_conversation_tokens_Nil message_tokens_def estimate_tokens_def)
  have s: "length (py ''The user said hi.'') = 17"
    by (simp add: py_def)
  from compact_conversation_preserves [where g = ?g, OF len]
  show ?thesis
    by (simp add: mid s)
qed

section \<open>Properties of \<^verbatim>\<open>replace_in_file\<close>\<close>

lemma length_py_split_found:
  "sep \<noteq> [] \<Longrightarrow> py_in sep s \<Longrightarrow> 2 \<le> length (py_split s sep)"
  using py_count_pos [of sep s] py_count_split [of sep s] by simp

lemma py_count_as_pieces:
  "sub \<noteq> [] \<Longrightarrow> int (py_count s sub) = int (length (py_split s sub)) - 1"
  using py_count_split [of sub s] by simp

lemma replace_in_file_found:
  assumes "arg_file_path args = Some path" "path \<noteq> []"
      and "arg_old_text args = Some old" "old \<noteq> []"
      and "read_fault fs path = None" "write_fault fs path = None"
      and "files fs path = Some stored"
      and "py_in old (universal_newlines stored)"
      and "encodable (py_replace (universal_newlines stored) old (get_str (arg_new_text args)))"
  shows "replace_in_file fs args =
           (Done (py ''Successfully replaced ''
                    @ str_int (int (py_count (universal_newlines stored) old))
                    @ py '' occurrence(s) of text in '' @ path),
            fs\<lparr>files := (files fs)(path \<mapsto>
                 py_replace (universal_newlines stored) old (get_str (arg_new_text args)))\<rparr>)"
  using assms
  by (simp add: replace_in_file_def get_str_def open_read_def open_write_def Let_def)

lemma replace_in_file_absent:
  assumes "arg_file_path args = Some path" "path \<noteq> []"
      and "arg_old_text args = Some old" "old \<noteq> []"
      and "read_fault fs path = None"
      and "files fs path = Some stored"
      and "\<not> py_in old (universal_newlines stored)"
  shows "replace_in_file fs args = (Failed (py ''Error: Text not found in file: '' @ old), fs)"
  using assms
  by (simp add: replace_in_file_def get_str_def open_read_def Let_def)

lemma executor_replace_in_file_found:
  assumes "arg_file_path args = Some path" "path \<noteq> []"
      and "arg_old_text args = Some old" "old \<noteq> []"
      and "read_fault fs path = None" "write_fault fs path = None"
      and "files fs path = Some stored"
      and "py_in old (universal_newlines stored)"
      and "encodable (py_replace (universal_newlines stored) old (get_str (arg_new_text args)))"
  shows "executor_replace_in_file fs args =
           (Done (py ''Successfully replaced text in '' @ path),
            fs\<lparr>files := (files fs)(path \<mapsto>
                 py_replace (universal_newlines stored) old (get_str (arg_new_text args)))\<rparr>)"
  using assms
  by (simp add: executor_replace_in_file_def get_str_def open_read_def open_write_def Let_def)

lemma executor_replace_in_file_absent:
  assumes "arg_file_path args = Some path" "path \<noteq> []"
      and "arg_old_text args = Some old" "old \<noteq> []"
      and "read_fault fs path = None"
      and "files fs path = Some stored"
      and "\<not> py_in old (universal_newlines stored)"
  shows "executor_replace_in_file fs args =
           (Failed (not_found_message path old (universal_newlines stored)), fs)"
  using assms
  by (simp add: executor_replace_in_file_def get_str_def open_read_def Let_def)

lemma replace_in_file_unencodable:
  assumes "arg_file_path args = Some path" "path \<noteq> []"
      and "arg_old_text args = Some old" "old \<noteq> []"
      and "read_fault fs path = None" "write_fault fs path = None"
      and "files fs path = Some stored"
      and "py_in old (universal_newlines stored)"
      and "\<not> encodable (py_replace (universal_newlines stored) old (get_str (arg_new_text args)))"
  shows "replace_in_file fs args =
           (Failed (py ''Error replacing text in file: ''
                      @ str_exn (encode_error
                          (py_replace (universal_newlines stored) old (get_str (arg_new_text args))))),
            fs\<lparr>files := (files fs)(path \<mapsto> [])\<rparr>)"
  using assms
  by (simp add: replace_in_file_def get_str_def open_read_def open_write_def Let_def
        encode_error_def)

lemma executor_replace_in_file_unencodable:
  assumes "arg_file_path args = Some path" "path \<noteq> []"
      and "arg_old_text args = Some old" "old \<noteq> []"
      and "read_fault fs path = None" "write_fault fs path = None"
      and "files fs path = Some stored"
      and "py_in old (universal_newlines stored)"
      and "\<not> encodable (py_replace (universal_newlines stored) old (get_str (arg_new_text args)))"
  shows "executor_replace_in_file fs args =
           (Failed (py ''Error replacing text in file: ''
                      @ str_exn (encode_error
                          (py_replace (universal_newlines stored) old (get_str (arg_new_text args))))),
            fs\<lparr>files := (files fs)(path \<mapsto> [])\<rparr>)"
  using assms
  by (simp add: executor_replace_in_file_def get_str_def open_read_def open_write_def Let_def
        encode_error_def)

lemma not_found_message_whitespace:
  "py_strip old \<noteq> [] \<Longrightarrow> py_in (py_strip old) txt \<Longrightarrow>
   not_found_message path old txt =
     py ''Error: Text found but whitespace doesn't match in '' @ path
       @ py ''. Check for exact indentation, tabs vs spaces, and trailing whitespace. Use read_file to see exact formatting.''"
  by (simp add: not_found_message_def Let_def)

lemma not_found_message_other:
  "\<not> (py_strip old \<noteq> [] \<and> py_in (py_strip old) txt) \<Longrightarrow>
   prefix (py ''Error: Text to replace not found in '' @ path) (not_found_message path old txt)"
  by (auto simp: not_found_message_def Let_def)

text \<open>
  C3. Neither executor replaces only the first match: both call \<^verbatim>\<open>content.replace(old_text,
  new_text)\<close> without a count, which replaces every match. On a file \<open>a=1; a=2\<close>,
  replacing \<open>a\<close> by \<open>b\<close> gives \<open>b=1; b=2\<close>, where the first match alone would give
  \<open>b=1; a=2\<close>. The executor of \<^verbatim>\<open>builtin_tool_executor.py\<close> reports no count, and the
  one of \<^verbatim>\<open>agent.py\<close> has a single not-found message, also when the text is there with
  other whitespace (here a tab before \<open>x = 1\<close> against two spaces in the file).
\<close>

theorem replace_in_file_first_match_counterexample:
  "replace_in_file
      \<lparr>files = [py ''f.py'' \<mapsto> py ''a=1; a=2''], read_fault = Map.empty, write_fault = Map.empty\<rparr>
      (no_arguments\<lparr>arg_file_path := Some (py ''f.py''), arg_old_text := Some (py ''a''), arg_new_text := Some (py ''b'')\<rparr>)
     = (Done (py ''Successfully replaced 2 occurrence(s) of text in f.py''),
        \<lparr>files = [py ''f.py'' \<mapsto> py ''b=1; b=2''], read_fault = Map.empty, write_fault = Map.empty\<rparr>)
   \<and> spec_replace_first (py ''a=1; a=2'') (py ''a'') (py ''b'') = py ''b=1; a=2''
   \<and> executor_replace_in_file
      \<lparr>files = [py ''f.py'' \<mapsto> py ''a=1; a=2''], read_fault = Map.empty, write_fault = Map.empty\<rparr>
      (no_arguments\<lparr>arg_file_path := Some (py ''f.py''), arg_old_text := Some (py ''a''), arg_new_text := Some (py ''b'')\<rparr>)
     = (Done (py ''Successfully replaced text in f.py''),
        \<lparr>files = [py ''f.py'' \<mapsto> py ''b=1; b=2''], read_fault = Map.empty, write_fault = Map.empty\<rparr>)
   \<and> replace_in_file
      \<lparr>files = [py ''f.py'' \<mapsto> py ''  x = 1''], read_fault = Map.empty, write_fault = Map.empty\<rparr>
      (no_arguments\<lparr>arg_file_path := Some (py ''f.py''), arg_old_text := Some ([9] @ py ''x = 1''), arg_new_text := Some (py ''y = 1'')\<rparr>)
     = (Failed (py ''Error: Text not found in file: '' @ [9] @ py ''x = 1''),
        \<lparr>files = [py ''f.py'' \<mapsto> py ''  x = 1''], read_fault = Map.empty, write_fault = Map.empty\<rparr>)"
  by (simp add: replace_in_file_def executor_replace_in_file_def no_arguments_def get_str_def
        open_read_def open_write_def encodable_def surrogate_def
        py_def str_int_def digits_small Let_def)

text \<open>
  C3, amended. For every readable and writable file whose text contains \<open>old_text\<close>,
  both executors replace every match of \<open>old_text\<close>, scanning from the left without
  overlap: the text they read is the pieces between the matches joined by \<open>old_text\<close>,
  no piece contains \<open>old_text\<close>, and the text they write is the same pieces joined by
  \<open>new_text\<close>, provided that text can be encoded as UTF-8, which it can when
  \<open>new_text\<close> holds no lone surrogate (the text of a file never does). Then
  \<^verbatim>\<open>_replace_in_file\<close> of \<^verbatim>\<open>agent.py\<close> reports the number of matches replaced (the number
  of pieces minus one, at least 1) and the executor of \<^verbatim>\<open>builtin_tool_executor.py\<close>
  reports success without a count. When the new text cannot be encoded, both return
  \<open>Error replacing text in file:\<close> with the message of the codec, and the file, which
  opening has truncated, is left empty. When \<open>old_text\<close> is absent the file is left as
  it is; \<^verbatim>\<open>agent.py\<close> returns the one error \<open>Error: Text not found in file: <old_text>\<close>,
  and only the executor of \<^verbatim>\<open>builtin_tool_executor.py\<close> tells a whitespace mismatch
  (the trimmed \<open>old_text\<close> is not empty and occurs in the text) from text that is not
  found.
\<close>

theorem replace_in_file_replaces_every_match:
  assumes path: "arg_file_path args = Some path" "path \<noteq> []"
      and old: "arg_old_text args = Some old" "old \<noteq> []"
      and new: "get_str (arg_new_text args) = new"
      and ok: "read_fault fs path = None" "write_fault fs path = None"
      and stored: "files fs path = Some stored"
      and rd: "txt = universal_newlines stored"
  shows "(py_in old txt \<longrightarrow>
            py_join old (py_split txt old) = txt
          \<and> (\<forall>p \<in> set (py_split txt old). \<not> py_in old p)
          \<and> 2 \<le> length (py_split txt old)
          \<and> (encodable stored \<and> encodable new \<longrightarrow> encodable (py_join new (py_split txt old)))
          \<and> (encodable (py_join new (py_split txt old)) \<longrightarrow>
                replace_in_file fs args =
                  (Done (py ''Successfully replaced ''
                           @ str_int (int (length (py_split txt old)) - 1)
                           @ py '' occurrence(s) of text in '' @ path),
                   fs\<lparr>files := (files fs)(path \<mapsto> py_join new (py_split txt old))\<rparr>)
              \<and> executor_replace_in_file fs args =
                  (Done (py ''Successfully replaced text in '' @ path),
                   fs\<lparr>files := (files fs)(path \<mapsto> py_join new (py_split txt old))\<rparr>))
          \<and> (\<not> encodable (py_join new (py_split txt old)) \<longrightarrow>
                replace_in_file fs args =
                  (Failed (py ''Error replacing text in file: ''
                             @ str_exn (encode_error (py_join new (py_split txt old)))),
                   fs\<lparr>files := (files fs)(path \<mapsto> [])\<rparr>)
              \<and> executor_replace_in_file fs args =
                  (Failed (py ''Error replacing text in file: ''
                             @ str_exn (encode_error (py_join new (py_split txt old)))),
                   fs\<lparr>files := (files fs)(path \<mapsto> [])\<rparr>)))
       \<and> (\<not> py_in old txt \<longrightarrow>
            replace_in_file fs args = (Failed (py ''Error: Text not found in file: '' @ old), fs)
          \<and> snd (executor_replace_in_file fs args) = fs
          \<and> is_error (fst (executor_replace_in_file fs args))
          \<and> (py_strip old \<noteq> [] \<and> py_in (py_strip old) txt \<longrightarrow>
                text_of (fst (executor_replace_in_file fs args)) =
                  py ''Error: Text found but whitespace doesn't match in '' @ path
                    @ py ''. Check for exact indentation, tabs vs spaces, and trailing whitespace. Use read_file to see exact formatting.'')
          \<and> (\<not> (py_strip old \<noteq> [] \<and> py_in (py_strip old) txt) \<longrightarrow>
                prefix (py ''Error: Text to replace not found in '' @ path)
                  (text_of (fst (executor_replace_in_file fs args)))))"
proof (intro conjI impI)
  assume found: "py_in old txt"
  then have f: "py_in old (universal_newlines stored)" by (simp add: rd)
  have rep: "py_replace (universal_newlines stored) old (get_str (arg_new_text args))
               = py_join new (py_split txt old)"
    by (simp add: rd new py_replace_split [OF old(2)])
  show "py_join old (py_split txt old) = txt"
    by (rule py_join_split [OF old(2)])
  show "\<forall>p \<in> set (py_split txt old). \<not> py_in old p"
    using py_split_pieces [OF old(2)] by blast
  show "2 \<le> length (py_split txt old)"
    by (rule length_py_split_found [OF old(2) found])
  {
    assume "encodable stored \<and> encodable new"
    then have "encodable (py_replace txt old new)"
      unfolding rd by (simp add: encodable_py_replace encodable_universal_newlines)
    then show "encodable (py_join new (py_split txt old))"
      by (simp add: py_replace_split [OF old(2)])
  }
  {
    assume "encodable (py_join new (py_split txt old))"
    then have enc: "encodable (py_replace (universal_newlines stored) old (get_str (arg_new_text args)))"
      by (simp add: rep)
    show "replace_in_file fs args =
              (Done (py ''Successfully replaced ''
                       @ str_int (int (length (py_split txt old)) - 1)
                       @ py '' occurrence(s) of text in '' @ path),
               fs\<lparr>files := (files fs)(path \<mapsto> py_join new (py_split txt old))\<rparr>)"
      unfolding replace_in_file_found [OF path old ok stored f enc]
      by (simp add: rd new py_replace_split [OF old(2)] py_count_as_pieces [OF old(2)])
    show "executor_replace_in_file fs args =
              (Done (py ''Successfully replaced text in '' @ path),
               fs\<lparr>files := (files fs)(path \<mapsto> py_join new (py_split txt old))\<rparr>)"
      unfolding executor_replace_in_file_found [OF path old ok stored f enc]
      by (simp add: rd new py_replace_split [OF old(2)])
  }
  {
    assume "\<not> encodable (py_join new (py_split txt old))"
    then have nenc: "\<not> encodable (py_replace (universal_newlines stored) old (get_str (arg_new_text args)))"
      by (simp add: rep)
    show "replace_in_file fs args =
                  (Failed (py ''Error replacing text in file: ''
                             @ str_exn (encode_error (py_join new (py_split txt old)))),
                   fs\<lparr>files := (files fs)(path \<mapsto> [])\<rparr>)"
      unfolding replace_in_file_unencodable [OF path old ok stored f nenc] by (simp add: rep)
    show "executor_replace_in_file fs args =
                  (Failed (py ''Error replacing text in file: ''
                             @ str_exn (encode_error (py_join new (py_split txt old)))),
                   fs\<lparr>files := (files fs)(path \<mapsto> [])\<rparr>)"
      unfolding executor_replace_in_file_unencodable [OF path old ok stored f nenc]
      by (simp add: rep)
  }
next
  assume "\<not> py_in old txt"
  then have a: "\<not> py_in old (universal_newlines stored)" by (simp add: rd)
  note ex = executor_replace_in_file_absent [OF path old ok(1) stored a]
  show "replace_in_file fs args = (Failed (py ''Error: Text not found in file: '' @ old), fs)"
    by (rule replace_in_file_absent [OF path old ok(1) stored a])
  show "snd (executor_replace_in_file fs args) = fs" by (simp add: ex)
  show "is_error (fst (executor_replace_in_file fs args))" by (simp add: ex)
  {
    assume "py_strip old \<noteq> [] \<and> py_in (py_strip old) txt"
    then show "text_of (fst (executor_replace_in_file fs args)) =
                  py ''Error: Text found but whitespace doesn't match in '' @ path
                    @ py ''. Check for exact indentation, tabs vs spaces, and trailing whitespace. Use read_file to see exact formatting.''"
      by (simp add: ex rd not_found_message_whitespace)
  }
  {
    assume "\<not> (py_strip old \<noteq> [] \<and> py_in (py_strip old) txt)"
    then show "prefix (py ''Error: Text to replace not found in '' @ path)
                  (text_of (fst (executor_replace_in_file fs args)))"
      using not_found_message_other [of old "txt" path] by (simp add: ex rd)
  }
qed

theorem replace_in_file_replaces_every_match_witness:
  "replace_in_file
      \<lparr>files = [py ''f.py'' \<mapsto> py ''a=1; a=2''], read_fault = Map.empty, write_fault = Map.empty\<rparr>
      (no_arguments\<lparr>arg_file_path := Some (py ''f.py''), arg_old_text := Some (py ''a''), arg_new_text := Some (py ''b'')\<rparr>)
     = (Done (py ''Successfully replaced 2 occurrence(s) of text in f.py''),
        \<lparr>files = [py ''f.py'' \<mapsto> py ''b=1; b=2''], read_fault = Map.empty, write_fault = Map.empty\<rparr>)
   \<and> py_split (py ''a=1; a=2'') (py ''a'') = [[], py ''=1; '', py ''=2'']
   \<and> text_of (fst (executor_replace_in_file
      \<lparr>files = [py ''f.py'' \<mapsto> py ''  x = 1''], read_fault = Map.empty, write_fault = Map.empty\<rparr>
      (no_arguments\<lparr>arg_file_path := Some (py ''f.py''), arg_old_text := Some ([9] @ py ''x = 1''), arg_new_text := Some (py ''y = 1'')\<rparr>)))
     = py ''Error: Text found but whitespace doesn't match in f.py. Check for exact indentation, tabs vs spaces, and trailing whitespace. Use read_file to see exact formatting.''
   \<and> replace_in_file
      \<lparr>files = [py ''f.py'' \<mapsto> py ''x = foo''], read_fault = Map.empty, write_fault = Map.empty\<rparr>
      (no_arguments\<lparr>arg_file_path := Some (py ''f.py''), arg_old_text := Some (py ''foo''), arg_new_text := Some [56320]\<rparr>)
     = (Failed (py ''Error replacing text in file: '' @ [39] @ py ''utf-8'' @ [39]
                  @ py '' codec can't encode character '' @ [39, 92] @ py ''udc00'' @ [39]
                  @ py '' in position 4: surrogates not allowed''),
        \<lparr>files = [py ''f.py'' \<mapsto> []], read_fault = Map.empty, write_fault = Map.empty\<rparr>)"
proof -
  let ?fs = "\<lparr>files = [py ''f.py'' \<mapsto> py ''a=1; a=2''], read_fault = Map.empty, write_fault = Map.empty\<rparr>"
  let ?args = "(no_arguments\<lparr>arg_file_path := Some (py ''f.py''), arg_old_text := Some (py ''a''), arg_new_text := Some (py ''b'')\<rparr>)"
  let ?fsx = "\<lparr>files = [py ''f.py'' \<mapsto> py ''  x = 1''], read_fault = Map.empty, write_fault = Map.empty\<rparr>"
  let ?argsx = "(no_arguments\<lparr>arg_file_path := Some (py ''f.py''), arg_old_text := Some ([9] @ py ''x = 1''), arg_new_text := Some (py ''y = 1'')\<rparr>)"
  let ?fss = "\<lparr>files = [py ''f.py'' \<mapsto> py ''x = foo''], read_fault = Map.empty, write_fault = Map.empty\<rparr>"
  let ?argss = "(no_arguments\<lparr>arg_file_path := Some (py ''f.py''), arg_old_text := Some (py ''foo''), arg_new_text := Some [56320]\<rparr>)"
  have split: "py_split (py ''a=1; a=2'') (py ''a'') = [[], py ''=1; '', py ''=2'']"
    by (simp add: py_def)
  have un: "universal_newlines (py ''a=1; a=2'') = py ''a=1; a=2''"
    by (simp add: py_def)
  have found: "py_in (py ''a'') (py ''a=1; a=2'')"
    by (simp add: py_def)
  have enc: "encodable (py_join (py ''b'') [[], py ''=1; '', py ''=2''])"
    by (simp add: encodable_append encodable_py)
  have a: "replace_in_file ?fs ?args
     = (Done (py ''Successfully replaced 2 occurrence(s) of text in f.py''),
        \<lparr>files = [py ''f.py'' \<mapsto> py ''b=1; b=2''], read_fault = Map.empty, write_fault = Map.empty\<rparr>)"
    using replace_in_file_replaces_every_match
      [of ?args "py ''f.py''" "py ''a''" "py ''b''" ?fs "py ''a=1; a=2''" "py ''a=1; a=2''"]
      found enc
    unfolding split
    by (simp add: no_arguments_def get_str_def un str_int_def digits_small) (simp add: py_def)
  have unx: "universal_newlines (py ''  x = 1'') = py ''  x = 1''"
    by (simp add: py_def)
  have strip: "py_strip ([9] @ py ''x = 1'') = py ''x = 1''"
    by (simp add: py_strip_def py_lstrip_def py_rstrip_def py_isspace_def py_def)
  have absent: "\<not> py_in ([9] @ py ''x = 1'') (py ''  x = 1'')"
    by (simp add: py_def)
  have present: "py_in (py ''x = 1'') (py ''  x = 1'')"
    by (simp add: py_def)
  have ne: "py ''x = 1'' \<noteq> []" "py ''f.py'' \<noteq> []" "[9] @ py ''x = 1'' \<noteq> []"
    by (simp_all add: py_def)
  have b: "text_of (fst (executor_replace_in_file ?fsx ?argsx)) = py ''Error: Text found but whitespace doesn't match in f.py. Check for exact indentation, tabs vs spaces, and trailing whitespace. Use read_file to see exact formatting.''"
    using replace_in_file_replaces_every_match
      [of ?argsx "py ''f.py''" "[9] @ py ''x = 1''" "py ''y = 1''" ?fsx "py ''  x = 1''" "py ''  x = 1''"]
      absent present ne
    unfolding strip
    by (simp add: no_arguments_def get_str_def unx) (simp add: py_def)
  have uns: "universal_newlines (py ''x = foo'') = py ''x = foo''"
    by (simp add: py_def)
  have founds: "py_in (py ''foo'') (py ''x = foo'')"
    by (simp add: py_def)
  have splits: "py_split (py ''x = foo'') (py ''foo'') = [py ''x = '', []]"
    by (simp add: py_def)
  have joined: "py_join [56320] [py ''x = '', []] = py ''x = '' @ [56320]"
    by simp
  have nenc: "\<not> encodable (py ''x = '' @ [56320])"
    by (simp add: encodable_append encodable_Cons surrogate_def)
  have msg: "str_exn (encode_error (py ''x = '' @ [56320]))
      = [39] @ py ''utf-8'' @ [39] @ py '' codec can't encode character '' @ [39, 92]
          @ py ''udc00'' @ [39] @ py '' in position 4: surrogates not allowed''"
    by (simp add: encode_error_def surrogate_def hex4_def hex_digit_def Let_def
          str_int_def digits_small py_def)
  have nes: "py ''foo'' \<noteq> []" by (simp add: py_def)
  have c: "replace_in_file ?fss ?argss
     = (Failed (py ''Error replacing text in file: '' @ [39] @ py ''utf-8'' @ [39]
                  @ py '' codec can't encode character '' @ [39, 92] @ py ''udc00'' @ [39]
                  @ py '' in position 4: surrogates not allowed''),
        \<lparr>files = [py ''f.py'' \<mapsto> []], read_fault = Map.empty, write_fault = Map.empty\<rparr>)"
    using replace_in_file_replaces_every_match
      [of ?argss "py ''f.py''" "py ''foo''" "[56320]" ?fss "py ''x = foo''" "py ''x = foo''"]
      founds nenc ne(2) nes
    unfolding splits joined msg
    by (simp add: no_arguments_def get_str_def uns)
  from a split b c show ?thesis by blast
qed







section \<open>Writing a file and reading it back\<close>





section \<open>Properties of \<^verbatim>\<open>task_results\<close>\<close>

lemma fold_dict_del: "fold dict_del ks d = filter (\<lambda>kv. fst kv \<notin> set ks) d"
proof (induction ks arbitrary: d)
  case Nil
  then show ?case by simp
next
  case (Cons k ks)
  have "fold dict_del (k # ks) d = fold dict_del ks (dict_del k d)" by simp
  also have "\<dots> = filter (\<lambda>kv. fst kv \<notin> set ks) (dict_del k d)" by (rule Cons.IH)
  also have "\<dots> = filter (\<lambda>kv. fst kv \<notin> set (k # ks)) d"
    unfolding dict_del_def by (auto intro: filter_cong)
  finally show ?case .
qed

lemma distinct_keys_unique:
  "distinct (map fst d) \<Longrightarrow> x \<in> set d \<Longrightarrow> y \<in> set d \<Longrightarrow> fst x = fst y \<Longrightarrow> x = y"
  by (metis distinct_map inj_onD)

lemma remove_selected:
  assumes "distinct (map fst d)"
  shows "fold dict_del (map fst (filter P d)) d = filter (\<lambda>kv. \<not> P kv) d"
proof -
  have "fst kv \<notin> set (map fst (filter P d)) \<longleftrightarrow> \<not> P kv" if "kv \<in> set d" for kv
  proof
    assume "fst kv \<notin> set (map fst (filter P d))"
    with that show "\<not> P kv" by force
  next
    assume np: "\<not> P kv"
    show "fst kv \<notin> set (map fst (filter P d))"
    proof
      assume "fst kv \<in> set (map fst (filter P d))"
      then obtain x where x: "x \<in> set d" "P x" "fst x = fst kv" by auto
      with distinct_keys_unique [OF assms x(1) that] have "x = kv" by simp
      with x np show False by simp
    qed
  qed
  then show ?thesis
    unfolding fold_dict_del by (intro filter_cong) auto
qed

lemma executor_task_results_subagents:
  assumes "distinct (map fst subs)" "arg_clear_after_retrieval args \<noteq> Some False"
  shows "snd (executor_task_results args (Some subs))
           = Some (filter (\<lambda>kv. \<not> sub_completed (snd kv)) subs)"
proof -
  have clear: "(case arg_clear_after_retrieval args of Some b \<Rightarrow> b | None \<Rightarrow> True)"
    using assms(2) by (cases "arg_clear_after_retrieval args") auto
  have "filter (\<lambda>kv. (sub_completed (snd kv) \<or> inc) \<and> sub_completed (snd kv)) subs
      = filter (\<lambda>kv. sub_completed (snd kv)) subs" for inc
    by (intro filter_cong) auto
  with clear show ?thesis
    by (simp add: executor_task_results_def Let_def remove_selected [OF assms(1)])
qed

text \<open>
  C10. In \<^verbatim>\<open>agent.py\<close> the tool \<^verbatim>\<open>task_results\<close> runs the later of the two definitions of
  \<^verbatim>\<open>_task_results\<close>, which removes nothing, whatever the arguments and the tasks. With
  a completed \<open>task_1\<close> and a running \<open>task_2\<close>, a call with \<^verbatim>\<open>clear_after_retrieval\<close> true
  returns \<open>Error: task_id is required\<close>, a call that names \<open>task_1\<close> returns its result,
  and \<open>task_1\<close> is still in the map after either. \<^verbatim>\<open>task_results\<close> of
  \<^verbatim>\<open>builtin_tool_executor.py\<close> removes \<open>task_1\<close> and keeps \<open>task_2\<close> as it is.
\<close>

theorem task_results_removes_nothing:
  "(\<forall>args manager. snd (task_results args manager) = manager)
   \<and> task_results (no_arguments\<lparr>arg_clear_after_retrieval := Some True\<rparr>)
        (Some [(py ''task_1'', \<lparr>sub_description = py ''read the docs'', sub_start_time = 100, sub_completed = True, sub_result = Some (py ''The docs describe three tools.'')\<rparr>),
            (py ''task_2'', \<lparr>sub_description = py ''run the tests'', sub_start_time = 101, sub_completed = False, sub_result = None\<rparr>)])
       = (Failed (py ''Error: task_id is required''), Some [(py ''task_1'', \<lparr>sub_description = py ''read the docs'', sub_start_time = 100, sub_completed = True, sub_result = Some (py ''The docs describe three tools.'')\<rparr>),
            (py ''task_2'', \<lparr>sub_description = py ''run the tests'', sub_start_time = 101, sub_completed = False, sub_result = None\<rparr>)])
   \<and> task_results (no_arguments\<lparr>arg_clear_after_retrieval := Some True, arg_task_id := Some (py ''task_1'')\<rparr>)
        (Some [(py ''task_1'', \<lparr>sub_description = py ''read the docs'', sub_start_time = 100, sub_completed = True, sub_result = Some (py ''The docs describe three tools.'')\<rparr>),
            (py ''task_2'', \<lparr>sub_description = py ''run the tests'', sub_start_time = 101, sub_completed = False, sub_result = None\<rparr>)])
       = (Done (py ''Task task_1 result:'' @ [10] @ py ''The docs describe three tools.''), Some [(py ''task_1'', \<lparr>sub_description = py ''read the docs'', sub_start_time = 100, sub_completed = True, sub_result = Some (py ''The docs describe three tools.'')\<rparr>),
            (py ''task_2'', \<lparr>sub_description = py ''run the tests'', sub_start_time = 101, sub_completed = False, sub_result = None\<rparr>)])
   \<and> snd (executor_task_results (no_arguments\<lparr>arg_clear_after_retrieval := Some True\<rparr>)
        (Some [(py ''task_1'', \<lparr>sub_description = py ''read the docs'', sub_start_time = 100, sub_completed = True, sub_result = Some (py ''The docs describe three tools.'')\<rparr>),
            (py ''task_2'', \<lparr>sub_description = py ''run the tests'', sub_start_time = 101, sub_completed = False, sub_result = None\<rparr>)]))
       = Some [(py ''task_2'', \<lparr>sub_description = py ''run the tests'', sub_start_time = 101, sub_completed = False, sub_result = None\<rparr>)]"
proof (intro conjI allI)
  fix args manager
  show "snd (task_results args manager) = manager"
    by (simp add: task_results_def split: option.splits)
next
  show "task_results (no_arguments\<lparr>arg_clear_after_retrieval := Some True\<rparr>)
        (Some [(py ''task_1'', \<lparr>sub_description = py ''read the docs'', sub_start_time = 100, sub_completed = True, sub_result = Some (py ''The docs describe three tools.'')\<rparr>),
            (py ''task_2'', \<lparr>sub_description = py ''run the tests'', sub_start_time = 101, sub_completed = False, sub_result = None\<rparr>)])
       = (Failed (py ''Error: task_id is required''), Some [(py ''task_1'', \<lparr>sub_description = py ''read the docs'', sub_start_time = 100, sub_completed = True, sub_result = Some (py ''The docs describe three tools.'')\<rparr>),
            (py ''task_2'', \<lparr>sub_description = py ''run the tests'', sub_start_time = 101, sub_completed = False, sub_result = None\<rparr>)])"
    by (simp add: task_results_def no_arguments_def)
next
  show "task_results (no_arguments\<lparr>arg_clear_after_retrieval := Some True, arg_task_id := Some (py ''task_1'')\<rparr>)
        (Some [(py ''task_1'', \<lparr>sub_description = py ''read the docs'', sub_start_time = 100, sub_completed = True, sub_result = Some (py ''The docs describe three tools.'')\<rparr>),
            (py ''task_2'', \<lparr>sub_description = py ''run the tests'', sub_start_time = 101, sub_completed = False, sub_result = None\<rparr>)])
       = (Done (py ''Task task_1 result:'' @ [10] @ py ''The docs describe three tools.''), Some [(py ''task_1'', \<lparr>sub_description = py ''read the docs'', sub_start_time = 100, sub_completed = True, sub_result = Some (py ''The docs describe three tools.'')\<rparr>),
            (py ''task_2'', \<lparr>sub_description = py ''run the tests'', sub_start_time = 101, sub_completed = False, sub_result = None\<rparr>)])"
    by (simp add: task_results_def no_arguments_def py_def)
next
  have d: "py ''task_2'' \<noteq> py ''task_1''" by (simp add: py_def)
  show "snd (executor_task_results (no_arguments\<lparr>arg_clear_after_retrieval := Some True\<rparr>)
        (Some [(py ''task_1'', \<lparr>sub_description = py ''read the docs'', sub_start_time = 100, sub_completed = True, sub_result = Some (py ''The docs describe three tools.'')\<rparr>),
            (py ''task_2'', \<lparr>sub_description = py ''run the tests'', sub_start_time = 101, sub_completed = False, sub_result = None\<rparr>)]))
       = Some [(py ''task_2'', \<lparr>sub_description = py ''run the tests'', sub_start_time = 101, sub_completed = False, sub_result = None\<rparr>)]"
    by (simp add: executor_task_results_def no_arguments_def Let_def dict_del_def d)
qed
section \<open>Properties of batch completion\<close>







text \<open>The loop over the batches acts on the current batch only.\<close>

lemma check_batch_other:
  "Some (fst g) \<noteq> current_batch_id st \<Longrightarrow> check_batch lg f n g st = (st, Value ())"
  by (simp add: check_batch_def Let_def)

lemma check_batches_others:
  "\<forall>g \<in> set gs. Some (fst g) \<noteq> current_batch_id st \<Longrightarrow>
   check_batches lg f n gs st = (st, Value ())"
  by (induction gs) (simp_all add: check_batch_other)





section \<open>Properties of the dispatcher\<close>






















section \<open>Error results of the tool layer\<close>


lemma prefix_py_append: "prefix (py a) (py a @ s)"
  by simp

lemma read_file_error:
  "is_error (read_file fs a) \<Longrightarrow>
     prefix (py ''Error: '') (text_of (read_file fs a))
   \<or> prefix (py ''Error reading file: '') (text_of (read_file fs a))"
  by (auto simp: read_file_def Let_def py_def split: raises.splits exn.splits if_splits)

lemma write_file_error:
  "is_error (fst (write_file fs a)) \<Longrightarrow>
     prefix (py ''Error: '') (text_of (fst (write_file fs a)))
   \<or> prefix (py ''Error writing file: '') (text_of (fst (write_file fs a)))"
  by (auto simp: write_file_def Let_def py_def split: prod.splits option.splits if_splits)

lemma replace_in_file_error:
  "is_error (fst (replace_in_file fs a)) \<Longrightarrow>
     prefix (py ''Error: '') (text_of (fst (replace_in_file fs a)))
   \<or> prefix (py ''Error replacing text in file: '') (text_of (fst (replace_in_file fs a)))"
  by (auto simp: replace_in_file_def Let_def py_def
      split: raises.splits exn.splits if_splits prod.splits option.splits)

lemma not_found_message_prefix: "prefix (py ''Error: '') (not_found_message p old txt)"
  by (simp add: not_found_message_def Let_def py_def)

lemma executor_replace_in_file_error:
  "is_error (fst (executor_replace_in_file fs a)) \<Longrightarrow>
     prefix (py ''Error: '') (text_of (fst (executor_replace_in_file fs a)))
   \<or> prefix (py ''Error replacing text in file: '')
        (text_of (fst (executor_replace_in_file fs a)))"
  using not_found_message_prefix
  by (auto simp: executor_replace_in_file_def Let_def
      split: raises.splits exn.splits if_splits prod.splits option.splits)
     (simp_all add: py_def)

lemma bash_execute_error:
  "is_error (bash_execute run sa) \<Longrightarrow>
     prefix (py ''Error: '') (text_of (bash_execute run sa))
   \<or> prefix (py ''Error executing command: '') (text_of (bash_execute run sa))"
  by (auto simp: bash_execute_def Let_def py_def split: raises.splits exn.splits if_splits)

lemma webfetch_error:
  "webfetch run a = Returns r \<Longrightarrow> is_error r \<Longrightarrow>
     prefix (py ''Error: '') (text_of r)
   \<or> prefix (py ''Error fetching URL (curl return code '') (text_of r)"
  by (auto simp: webfetch_def Let_def py_def split: raises.splits if_splits)

section \<open>Interrupting a streamed response\<close>

lemma consume_full_response:
  "fst (consume ts full out) \<noteq> [] \<longleftrightarrow>
   full \<noteq> [] \<or> fst (consume ts [] out) \<noteq> []"
proof (induction ts arbitrary: full out)
  case Nil
  show ?case by simp
next
  case (Cons t ts)
  show ?case
  proof (cases "tick_item t")
    case (StreamRaises e)
    then show ?thesis by simp
  next
    case (Chunk c)
    show ?thesis
      using Cons.IH [of "full @ c"] Cons.IH [of "[] @ c"] Chunk by auto
  qed
qed

text \<open>
  Whatever the stream and the keyboard do, the terminal has its saved attributes
  again when the branch is left.
\<close>

lemma stream_response_restores_terminal:
  "chat_terminal (stream_response setraw response st) = chat_terminal st"
  by (simp add: stream_response_def Let_def split: prod.splits loop_end.splits)

text \<open>
  The assistant message is appended exactly when some text has been accumulated,
  interrupted or not.
\<close>

lemma stream_response_messages:
  "consume response [] out0 = (full, out, ending) \<Longrightarrow>
   out0 = chat_stdout st @ [[10] @ py ''Assistant (press ESC to interrupt):'' @ [10]] \<Longrightarrow>
   chat_messages (stream_response setraw response st) =
     (if full \<noteq> [] \<and> (\<forall>e. ending \<noteq> LoopRaises e)
      then chat_messages st @ [assistant_message full] else chat_messages st)"
  by (auto simp: stream_response_def Let_def split: prod.splits loop_end.splits)

text \<open>
  C1. The stream yields \<open>Hel\<close> and then \<open>lo\<close>; the escape key is read when the
  second chunk arrives. The loop stops there (\<open>lo\<close> is neither shown nor kept) and
  the terminal gets its saved attributes back, but the conversation gains the
  assistant message \<open>Hel\<close>, built from the chunk received before the interrupt:
  the test before \<^verbatim>\<open>messages.append\<close> is \<^verbatim>\<open>if full_response:\<close>, though its comment
  reads \<open>Only add if not interrupted\<close>.
\<close>

theorem stream_interrupted_appends_partial_message:
  "stream_response setraw
     [\<lparr>tick_item = Chunk (py ''Hel''), tick_key = None, tick_interrupted = False\<rparr>,
      \<lparr>tick_item = Chunk (py ''lo''), tick_key = Some 27, tick_interrupted = False\<rparr>]
     \<lparr>chat_messages = [\<lparr>role = Some (py ''user''), content = Text (py ''hi''),
                         tool_call_id = None\<rparr>],
      chat_terminal = cooked, chat_stdout = []\<rparr>
   = \<lparr>chat_messages = [\<lparr>role = Some (py ''user''), content = Text (py ''hi''),
                         tool_call_id = None\<rparr>,
                       \<lparr>role = Some (py ''assistant''), content = Text (py ''Hel''),
                         tool_call_id = None\<rparr>],
      chat_terminal = cooked,
      chat_stdout = [[10] @ py ''Assistant (press ESC to interrupt):'' @ [10],
                     py ''Hel'',
                     [10, 128721] @ py '' Streaming interrupted by user'' @ [10]]\<rparr>"
  by (simp add: stream_response_def assistant_message_def Let_def py_def)

end
